theory Spec2Isabelle
  imports Complex_Main
begin

section \<open>The diagnostic process-tree reporter of \<^verbatim>\<open>vs/code/electron-main/main.ts\<close>\<close>

subsection \<open>Data\<close>

text \<open>
  \<^verbatim>\<open>ProcessItem\<close> of \<^verbatim>\<open>vs/base/node/ps\<close>, with the fields the formatter reads. The optional
  \<^verbatim>\<open>children\<close> array is a list: the formatter treats an absent array and an empty one
  alike (\<^verbatim>\<open>Array.isArray(item.children)\<close> guards a \<^verbatim>\<open>forEach\<close>). The two samples
  \<^verbatim>\<open>load\<close> and \<open>mem\<close> are finite numbers, kept as reals.
\<close>

datatype ProcessItem =
  ProcessItem (pid: nat) (name: string) (load: real) (mem: real) (children: "ProcessItem list")

text \<open>An entry of \<^verbatim>\<open>IMainProcessInfo.windows\<close>, and \<^verbatim>\<open>IMainProcessInfo\<close> itself.\<close>

record WindowInfo =
  window_pid :: nat
  title :: string

record IMainProcessInfo =
  mainPID :: nat
  windows :: "WindowInfo list"

text \<open>
  What the formatter reads from its surroundings: \<^verbatim>\<open>product.applicationName\<close>,
  \<^verbatim>\<open>os.totalmem()\<close> (a count of bytes), the header lines that \<^verbatim>\<open>formatProcessList\<close> builds
  from \<^verbatim>\<open>pkg\<close>, \<^verbatim>\<open>product\<close>, \<^verbatim>\<open>os\<close> and \<^verbatim>\<open>app\<close> before the table, the rounding
  \<open>fl\<close> that the host's number arithmetic applies to the exact result of every
  multiplication and division (\<open>binary64\<close> below in the running program; the identity is
  exact arithmetic), and the host's conversion of a number to a string for the integers
  that are not safe (from \<open>2 ^ 53\<close> on, where the digits are the shortest that identify
  the value, in exponent notation from \<open>10 ^ 21\<close> on).
\<close>

record host =
  applicationName :: string
  totalmem :: real
  header_lines :: "string list"
  fl :: "real \<Rightarrow> real"
  number_toString :: "int \<Rightarrow> string"

subsection \<open>Number and string helpers of the platform\<close>

text \<open>
  \<^verbatim>\<open>Number(x.toFixed(0))\<close>: the integer nearest to \<open>x\<close>; of two equally near ones
  \<^verbatim>\<open>toFixed\<close> takes the larger in magnitude (it rounds the absolute value and keeps the
  sign).
\<close>

definition toFixed0 :: "real \<Rightarrow> int" where
  "toFixed0 x = (if x < 0 then - \<lfloor>- x + 1 / 2\<rfloor> else \<lfloor>x + 1 / 2\<rfloor>)"

text \<open>
  The arithmetic of the running program: every multiplication and division gives the
  binary64 number nearest to the exact result, the one with the even significand of two
  equally near ones. \<open>round_even\<close> is that rounding to an integer, and \<open>binary64 x\<close>
  rounds \<open>x\<close> to 53 significant bits. The exponent is not bounded here: overflow to
  \<^verbatim>\<open>Infinity\<close> and the subnormal numbers are left out, far from every percentage and
  every count of bytes.
\<close>

definition round_even :: "real \<Rightarrow> int" where
  "round_even x =
     (let f = \<lfloor>x\<rfloor>
      in if x - of_int f < 1 / 2 then f
         else if 1 / 2 < x - of_int f then f + 1
         else if even f then f else f + 1)"

definition binary64 :: "real \<Rightarrow> real" where
  "binary64 x =
     (if x = 0 then 0
      else let e = \<lfloor>log 2 \<bar>x\<bar>\<rfloor>
           in of_int (round_even (x * 2 powi (52 - e))) * 2 powi (e - 52))"

text \<open>
  The decimal digits of a natural number, and \<^verbatim>\<open>'' + n\<close> for an integer \<open>n\<close>: its
  decimal digits when it is a safe integer, the host's conversion otherwise.
\<close>

fun digits :: "nat \<Rightarrow> string" where
  "digits n =
     (if n < 10 then [''0123456789'' ! n]
      else digits (n div 10) @ [''0123456789'' ! (n mod 10)])"

definition num_str :: "host \<Rightarrow> int \<Rightarrow> string" where
  "num_str H n =
     (if \<bar>n\<bar> < 2 ^ 53
      then (if n < 0 then ''-'' @ digits (nat (- n)) else digits (nat n))
      else number_toString H n)"

text \<open>
  Modelled from the spec: \<^verbatim>\<open>repeat\<close> and \<^verbatim>\<open>pad\<close> of \<^verbatim>\<open>vs/base/common/strings\<close> are not
  among the sources. The spec has the indentation as two spaces times the depth
  (\<^verbatim>\<open>repeat('  ', indent)\<close>: the string, \<open>indent\<close> times) and the numeric columns
  right-justified (\<^verbatim>\<open>pad(n, l, ' ')\<close>: the string of \<open>n\<close>, filled on the left to width
  \<open>l\<close>).
\<close>

definition repeat :: "string \<Rightarrow> nat \<Rightarrow> string" where
  "repeat s count = concat (replicate count s)"

definition pad :: "host \<Rightarrow> int \<Rightarrow> nat \<Rightarrow> char \<Rightarrow> string" where
  "pad H n l c = replicate (l - length (num_str H n)) c @ num_str H n"

text \<open>A value placed in a template literal: \<^verbatim>\<open>undefined\<close> prints as its name.\<close>

definition template_str :: "string option \<Rightarrow> string" where
  "template_str v = (case v of None \<Rightarrow> ''undefined'' | Some s \<Rightarrow> s)"

definition MB :: real where
  "MB = 1024 * 1024"

subsection \<open>The formatter\<close>

text \<open>
  \<^verbatim>\<open>info.windows.forEach(window => mapPidToWindowTitle.set(window.pid, window.title))\<close>:
  a later window of the same pid replaces the earlier one.
\<close>

definition mapPidToWindowTitle :: "IMainProcessInfo \<Rightarrow> (nat \<rightharpoonup> string)" where
  "mapPidToWindowTitle info =
     fold (\<lambda>window m. m(window_pid window \<mapsto> title window)) (windows info) Map.empty"

text \<open>The name column of a row (lines 251 to 260).\<close>

definition row_name :: "host \<Rightarrow> (nat \<rightharpoonup> string) \<Rightarrow> ProcessItem \<Rightarrow> nat \<Rightarrow> string" where
  "row_name H m item indent =
     (if indent = 0 then applicationName H @ '' main''
      else if name item = ''renderer''
        then (repeat ''  '' indent @ '' '' @ name item) @ '' ('' @ template_str (m (pid item)) @ '')''
        else repeat ''  '' indent @ '' '' @ name item)"

text \<open>The memory of a row in megabytes, \<^verbatim>\<open>(os.totalmem() * (item.mem / 100)) / MB\<close>.\<close>

definition mem_MB :: "host \<Rightarrow> ProcessItem \<Rightarrow> real" where
  "mem_MB H item = fl H (fl H (totalmem H * fl H (mem item / 100)) / MB)"

text \<open>The row pushed at line 261: the two padded numbers and the name, tab-separated.\<close>

definition row :: "host \<Rightarrow> (nat \<rightharpoonup> string) \<Rightarrow> ProcessItem \<Rightarrow> nat \<Rightarrow> string" where
  "row H m item indent =
     pad H (toFixed0 (load item)) 5 CHR '' '' @ [CHR 0x09] @
     pad H (toFixed0 (mem_MB H item)) 6 CHR '' '' @ [CHR 0x09] @
     row_name H m item indent"

text \<open>
  \<^verbatim>\<open>formatProcessItem\<close> pushes onto \<^verbatim>\<open>output\<close>; here it returns the extended array.
\<close>

fun formatProcessItem ::
  "host \<Rightarrow> (nat \<rightharpoonup> string) \<Rightarrow> string list \<Rightarrow> ProcessItem \<Rightarrow> nat \<Rightarrow> string list" where
  "formatProcessItem H m output (ProcessItem p n l me cs) indent =
     fold (\<lambda>child out. formatProcessItem H m out child (indent + 1)) cs
       (output @ [row H m (ProcessItem p n l me cs) indent])"

text \<open>\<^verbatim>\<open>output.join('\n')\<close>.\<close>

fun join_lines :: "string list \<Rightarrow> string" where
  "join_lines [] = []"
| "join_lines [l] = l"
| "join_lines (l # ls) = l @ [CHR 0x0A] @ join_lines ls"

definition formatProcessList :: "host \<Rightarrow> IMainProcessInfo \<Rightarrow> ProcessItem \<Rightarrow> string" where
  "formatProcessList H info rootProcess =
     join_lines
       (formatProcessItem H (mapPidToWindowTitle info)
          (header_lines H @ ['''', ''CPU %'' @ [CHR 0x09] @ ''Mem MB'' @ [CHR 0x09] @ ''Process''])
          rootProcess 0)"

subsection \<open>The table as the specification words it\<close>

text \<open>
  The specification's table has one row per \<^verbatim>\<open>ProcessItem\<close> in pre-order: the root first,
  then the children in their given order, each one level deeper than its parent.
  \<open>preorder item depth\<close> lists the items of the tree with their depths in that order, and
  \<open>count_items\<close> counts them.
\<close>

fun preorder :: "ProcessItem \<Rightarrow> nat \<Rightarrow> (ProcessItem \<times> nat) list" where
  "preorder (ProcessItem p n l me cs) depth =
     (ProcessItem p n l me cs, depth) # concat (map (\<lambda>child. preorder child (depth + 1)) cs)"

fun count_items :: "ProcessItem \<Rightarrow> nat" where
  "count_items (ProcessItem p n l me cs) = 1 + sum_list (map count_items cs)"

section \<open>The single-instance coordinator of \<^verbatim>\<open>vs/code/electron-main/main.ts\<close>\<close>

subsection \<open>Errors and promises\<close>

text \<open>
  A JavaScript error object with the properties the code reads: \<^verbatim>\<open>name\<close> (as
  \<open>ename\<close>), the optional \<^verbatim>\<open>code\<close> of a system error, \<^verbatim>\<open>message\<close>, the optional
  \<^verbatim>\<open>stack\<close>, and the \<^verbatim>\<open>isExpected\<close> mark that only \<^verbatim>\<open>ExpectedError\<close> sets.
\<close>

record js_error =
  ename :: string
  code :: "string option"
  message :: string
  stack :: "string option"
  isExpected :: bool

text \<open>
  \<^verbatim>\<open>new Error(msg)\<close> and \<^verbatim>\<open>new ExpectedError(msg)\<close>; \<open>st\<close> is the stack text that the
  runtime attaches.
\<close>

definition Error :: "string option \<Rightarrow> string \<Rightarrow> js_error" where
  "Error st msg =
     \<lparr>ename = ''Error'', code = None, message = msg, stack = st, isExpected = False\<rparr>"

definition ExpectedError :: "string option \<Rightarrow> string \<Rightarrow> js_error" where
  "ExpectedError st msg =
     \<lparr>ename = ''Error'', code = None, message = msg, stack = st, isExpected = True\<rparr>"

text \<open>The truth value of an optional string in a condition: absent and empty are false.\<close>

definition truthy :: "string option \<Rightarrow> bool" where
  "truthy v = (case v of None \<Rightarrow> False | Some str \<Rightarrow> str \<noteq> [])"

text \<open>\<^verbatim>\<open>Error.prototype.toString\<close>.\<close>

definition toString :: "js_error \<Rightarrow> string" where
  "toString e =
     (if ename e = [] then message e
      else if message e = [] then ename e
      else ename e @ '': '' @ message e)"

text \<open>
  How a promise ends: fulfilled with a value, rejected with an error, or never settled
  (the peer does not answer).
\<close>

datatype 'a promise = Resolved 'a | Rejected js_error | Pending

text \<open>
  What the outside does with a request sent over the connection: no answer at all, or an
  answer after so many milliseconds, an error or a value.
\<close>

datatype 'a reply = Never | Reply nat "js_error + 'a"

subsection \<open>Configuration, the outside world, effects\<close>

record ParsedArgs =
  ps :: bool
  argv :: "string list"

text \<open>
  The \<^verbatim>\<open>platform\<close> flags, \<^verbatim>\<open>product.nameShort\<close>, the fields of
  \<^verbatim>\<open>IEnvironmentService\<close> that \<^verbatim>\<open>setupIPC\<close> reads, and \<^verbatim>\<open>process.env\<close>.
\<close>

record environment =
  isWindows :: bool
  isMacintosh :: bool
  nameShort :: string
  mainIPCHandle :: string
  args :: ParsedArgs
  wait :: bool
  extensionTestsPath :: "string option"
  debugExtensionHost_break :: bool
  process_env :: "(string \<times> string) list"

datatype Server = Server nat

datatype Client = Client nat

text \<open>
  The three ways the guarded block of \<^verbatim>\<open>allowSetForegroundWindow\<close> can go: loading the
  native module throws, its call throws, or the grant is made.
\<close>

datatype grant = RequireThrows | CallThrows | Granted

text \<open>
  The outside world as a script of answers: what the \<open>n\<close>-th call of \<^verbatim>\<open>serve\<close> and
  of \<^verbatim>\<open>connect\<close> returns (counted from 0), whether \<^verbatim>\<open>fs.unlinkSync\<close> throws, what the
  peer answers on the launch channel, what \<^verbatim>\<open>listProcesses\<close> returns, and the stack text
  of an error built during the run.
\<close>

record world =
  serve_result :: "nat \<Rightarrow> js_error + Server"
  connect_result :: "nat \<Rightarrow> js_error + Client"
  unlink_result :: "js_error option"
  getMainProcessId_reply :: "nat reply"
  grant_result :: grant
  getMainProcessInfo_reply :: "IMainProcessInfo reply"
  listProcesses_reply :: "nat \<Rightarrow> ProcessItem reply"
  start_reply :: "unit reply"
  captured_stack :: "string option"

text \<open>The effects of a run, in the order they happen.\<close>

datatype event =
    Serve string
  | DockShow
  | DockHide
  | ConsoleLog string
  | ConsoleError string
  | Connect string
  | LogError string
  | LogInfo string "string list"
  | ClientDispose Client
  | SetTimeout nat nat
  | ClearTimeout nat
  | ShowStartupWarningDialog string string
  | RpcGetMainProcessId
  | NodeRequire string
  | AllowSetForegroundWindow nat
  | RpcGetMainProcessInfo
  | ListProcesses nat
  | RpcStart ParsedArgs "(string \<times> string) list"
  | UnlinkSync string
  | Kill nat

fun is_Serve :: "event \<Rightarrow> bool" where
  "is_Serve (Serve h) = True"
| "is_Serve _ = False"

fun is_Connect :: "event \<Rightarrow> bool" where
  "is_Connect (Connect h) = True"
| "is_Connect _ = False"

fun is_UnlinkSync :: "event \<Rightarrow> bool" where
  "is_UnlinkSync (UnlinkSync h) = True"
| "is_UnlinkSync _ = False"

fun is_RpcStart :: "event \<Rightarrow> bool" where
  "is_RpcStart (RpcStart a e) = True"
| "is_RpcStart _ = False"

fun is_SetTimeout :: "event \<Rightarrow> bool" where
  "is_SetTimeout (SetTimeout h ms) = True"
| "is_SetTimeout _ = False"

fun is_ClearTimeout :: "event \<Rightarrow> bool" where
  "is_ClearTimeout (ClearTimeout h) = True"
| "is_ClearTimeout _ = False"

definition count_ev :: "(event \<Rightarrow> bool) \<Rightarrow> event list \<Rightarrow> nat" where
  "count_ev p es = length (filter p es)"

text \<open>
  The state of a run: the effects so far, a clock in milliseconds, and the pending timers
  (handle, due time, and the message and detail of the dialog that the timer's callback
  requests: the one callback the program ever schedules).
\<close>

record state =
  trace :: "event list"
  clock :: nat
  timers :: "(nat \<times> nat \<times> string \<times> string) list"

definition emit :: "event \<Rightarrow> state \<Rightarrow> state" where
  "emit e s = s\<lparr>trace := trace s @ [e]\<rparr>"

subsection \<open>The startup warning timer\<close>

text \<open>
  Modelled from the spec: \<^verbatim>\<open>setTimeout\<close> and \<^verbatim>\<open>clearTimeout\<close> belong to the platform and
  are not among the sources. The spec's scheduler schedules its callback to run once if not
  cancelled first, and cancelling an unarmed or already fired one does nothing. A handle is
  fresh for each \<^verbatim>\<open>setTimeout\<close>. Time passes only while the run waits for an answer
  (\<open>elapse\<close>); a timer that is due by then runs before the run continues, and leaves the
  pending ones. Waiting for an answer that never comes lets every pending timer run
  (\<open>elapse_forever\<close>).
\<close>

definition showStartupWarningDialog :: "string \<Rightarrow> string \<Rightarrow> state \<Rightarrow> state" where
  "showStartupWarningDialog msg detail s = emit (ShowStartupWarningDialog msg detail) s"

definition setTimeout :: "string \<times> string \<Rightarrow> nat \<Rightarrow> state \<Rightarrow> nat \<times> state" where
  "setTimeout callback ms s =
     (let h = Suc (count_ev is_SetTimeout (trace s))
      in (h, (emit (SetTimeout h ms) s)\<lparr>timers := timers s @ [(h, clock s + ms, callback)]\<rparr>))"

definition clearTimeout :: "nat \<Rightarrow> state \<Rightarrow> state" where
  "clearTimeout h s =
     (emit (ClearTimeout h) s)\<lparr>timers := filter (\<lambda>t. fst t \<noteq> h) (timers s)\<rparr>"

definition fire :: "(nat \<times> nat \<times> string \<times> string) list \<Rightarrow> event list" where
  "fire ts = map (\<lambda>t. ShowStartupWarningDialog (fst (snd (snd t))) (snd (snd (snd t)))) ts"

definition elapse :: "nat \<Rightarrow> state \<Rightarrow> state" where
  "elapse d s =
     s\<lparr>clock := clock s + d,
       trace := trace s @ fire (filter (\<lambda>t. fst (snd t) \<le> clock s + d) (timers s)),
       timers := filter (\<lambda>t. \<not> fst (snd t) \<le> clock s + d) (timers s)\<rparr>"

definition elapse_forever :: "state \<Rightarrow> state" where
  "elapse_forever s = s\<lparr>trace := trace s @ fire (timers s), timers := []\<rparr>"

subsection \<open>\<^verbatim>\<open>setupIPC\<close>\<close>

text \<open>
  \<^verbatim>\<open>allowSetForegroundWindow\<close> (lines 91 to 108). On Windows the promise is that of
  \<^verbatim>\<open>service.getMainProcessId()\<close> followed by the guarded native call; elsewhere it is
  already fulfilled.
\<close>

definition allowSetForegroundWindow ::
  "environment \<Rightarrow> world \<Rightarrow> state \<Rightarrow> unit promise \<times> state" where
  "allowSetForegroundWindow E W s =
     (if isWindows E then
        (let s1 = emit RpcGetMainProcessId s
         in case getMainProcessId_reply W of
              Never \<Rightarrow> (Pending, elapse_forever s1)
            | Reply d r \<Rightarrow>
                (case r of
                   Inl e \<Rightarrow> (Rejected e, elapse d s1)
                 | Inr processId \<Rightarrow>
                     (let s2 = emit (LogInfo ''Sending some foreground love to the running instance:''
                                  [digits processId]) (elapse d s1);
                          s3 = emit (NodeRequire ''windows-foreground-love'') s2
                      in (Resolved (),
                          case grant_result W of
                            RequireThrows \<Rightarrow> s3
                          | CallThrows \<Rightarrow> emit (AllowSetForegroundWindow processId) s3
                          | Granted \<Rightarrow> emit (AllowSetForegroundWindow processId) s3))))
      else (Resolved (), s))"

definition tests_msg :: string where
  "tests_msg = ''Running extension tests from the command line is currently only supported if no other instance of Code is running.''"

definition ps_warning :: string where
  "ps_warning = ''Warning: The --ps argument can only be used if Code is already running. Please run it again after Code has started.''"

definition secondInstanceNoResponse :: "environment \<Rightarrow> string \<times> string" where
  "secondInstanceNoResponse E =
     (''Another instance of '' @ nameShort E @ '' is running but not responding'',
      ''Please close all other instances and try again.'')"

definition secondInstanceAdmin :: "environment \<Rightarrow> string \<times> string" where
  "secondInstanceAdmin E =
     (''A second instance of '' @ nameShort E @ '' is already running as administrator.'',
      ''Please close the other instance and try again.'')"

text \<open>
  The diagnostic branch of the callback (lines 161 to 169): ask the peer for its process
  information, collect the process tree, print the report, and end with an
  \<^verbatim>\<open>ExpectedError\<close> without a message.
\<close>

definition diagnose :: "host \<Rightarrow> world \<Rightarrow> state \<Rightarrow> Server promise \<times> state" where
  "diagnose H W s =
     (let s2 = emit RpcGetMainProcessInfo s
      in case getMainProcessInfo_reply W of
           Never \<Rightarrow> (Pending, elapse_forever s2)
         | Reply d r \<Rightarrow>
             (case r of
                Inl e \<Rightarrow> (Rejected e, elapse d s2)
              | Inr info \<Rightarrow>
                  (let s3 = emit (ListProcesses (mainPID info)) (elapse d s2)
                   in case listProcesses_reply W (mainPID info) of
                        Never \<Rightarrow> (Pending, elapse_forever s3)
                      | Reply d' r' \<Rightarrow>
                          (case r' of
                             Inl e \<Rightarrow> (Rejected e, elapse d' s3)
                           | Inr rootProcess \<Rightarrow>
                               (Rejected (ExpectedError (captured_stack W) []),
                                emit (ConsoleLog (formatProcessList H info rootProcess))
                                  (elapse d' s3))))))"

text \<open>
  The forwarding branch of the callback (lines 171 to 184): the foreground grant, the
  start request, the disposal of the connection, the cancellation of the warning timer
  when there is one, and the \<^verbatim>\<open>ExpectedError\<close> that ends the run.
\<close>

definition forward ::
  "environment \<Rightarrow> world \<Rightarrow> Client \<Rightarrow> nat option \<Rightarrow> state \<Rightarrow> Server promise \<times> state" where
  "forward E W client startupWarningDialogHandle s =
     (let s2 = emit (LogInfo ''Sending env to running instance...'' []) s
      in case allowSetForegroundWindow E W s2 of
           (Pending, s3) \<Rightarrow> (Pending, s3)
         | (Rejected e, s3) \<Rightarrow> (Rejected e, s3)
         | (Resolved u, s3) \<Rightarrow>
             (let s4 = emit (RpcStart (args E) (process_env E)) s3
              in case start_reply W of
                   Never \<Rightarrow> (Pending, elapse_forever s4)
                 | Reply d r \<Rightarrow>
                     (case r of
                        Inl e \<Rightarrow> (Rejected e, elapse d s4)
                      | Inr ack \<Rightarrow>
                          (let s5 = emit (ClientDispose client) (elapse d s4);
                               s6 = (case startupWarningDialogHandle of
                                       Some h \<Rightarrow> clearTimeout h s5
                                     | None \<Rightarrow> s5)
                           in (Rejected (ExpectedError (captured_stack W)
                                 ''Sent env to running instance. Terminating...''),
                               s6)))))"

text \<open>
  The callback of \<^verbatim>\<open>connect\<close> for a connection that was made (lines 134 to 185): a live
  peer exists. The check for a run of extension tests comes first, then the warning timer
  (a handle that is set is an object, hence true in a condition), then the two branches.
\<close>

definition connected ::
  "host \<Rightarrow> environment \<Rightarrow> world \<Rightarrow> Client \<Rightarrow> state \<Rightarrow> Server promise \<times> state" where
  "connected H E W client s =
     (if truthy (extensionTestsPath E) \<and> \<not> debugExtensionHost_break E then
        (Rejected (Error (captured_stack W) tests_msg),
         emit (ClientDispose client) (emit (LogError tests_msg) s))
      else
        (let (startupWarningDialogHandle, s1) =
               (if \<not> wait E
                then (case setTimeout (secondInstanceNoResponse E) 10000 s of
                        (h, s') \<Rightarrow> (Some h, s'))
                else (None, s))
         in if ps (args E) then diagnose H W s1
            else forward E W client startupWarningDialogHandle s1))"

text \<open>
  \<^verbatim>\<open>setup\<close> (lines 110 to 212), as \<open>setup'\<close>. The \<open>n\<close>-th call of \<^verbatim>\<open>serve\<close> and of \<^verbatim>\<open>connect\<close> is
  the one after \<open>n\<close> earlier calls in the trace. The only recursive call is
  \<^verbatim>\<open>setup(false)\<close>, reached with \<open>retry\<close> true.
\<close>

function setup' ::
  "host \<Rightarrow> environment \<Rightarrow> world \<Rightarrow> bool \<Rightarrow> state \<Rightarrow> Server promise \<times> state" where
  "setup' H E W retry s =
     (let s1 = emit (Serve (mainIPCHandle E)) s
      in case serve_result W (count_ev is_Serve (trace s)) of
           Inr server \<Rightarrow>
             (let s2 = (if isMacintosh E then emit DockShow s1 else s1);
                  s3 = (if ps (args E) then emit (ConsoleLog ps_warning) s2 else s2)
              in (Resolved server, s3))
         | Inl err \<Rightarrow>
             if code err \<noteq> Some ''EADDRINUSE'' then (Rejected err, s1)
             else
               (let s2 = (if isMacintosh E then emit DockHide s1 else s1);
                    s3 = emit (Connect (mainIPCHandle E)) s2
                in case connect_result W (count_ev is_Connect (trace s)) of
                     Inr client \<Rightarrow> connected H E W client s3
                   | Inl err \<Rightarrow>
                       if \<not> retry \<or> isWindows E \<or> code err \<noteq> Some ''ECONNREFUSED'' then
                         (Rejected err,
                          if code err = Some ''EPERM''
                          then showStartupWarningDialog (fst (secondInstanceAdmin E))
                                 (snd (secondInstanceAdmin E)) s3
                          else s3)
                       else
                         (let s4 = emit (UnlinkSync (mainIPCHandle E)) s3
                          in case unlink_result W of
                               Some e \<Rightarrow>
                                 (Rejected e,
                                  emit (LogInfo ''Fatal error deleting obsolete instance handle''
                                    [toString e]) s4)
                             | None \<Rightarrow> setup' H E W False s4)))"
  by pat_completeness auto
termination
  by (relation "measure (\<lambda>(H, E, W, retry, s). if retry then 1 else 0)") auto

declare setup'.simps [simp del]

definition setupIPC :: "host \<Rightarrow> environment \<Rightarrow> world \<Rightarrow> state \<Rightarrow> Server promise \<times> state" where
  "setupIPC H E W s = setup' H E W True s"

subsection \<open>\<^verbatim>\<open>quit\<close>\<close>

text \<open>
  \<^verbatim>\<open>quit\<close> (lines 280 to 301); \<^verbatim>\<open>lifecycleService.kill(exitCode)\<close> is the effect
  \<open>Kill exitCode\<close>. An absent reason is \<open>None\<close>.
\<close>

definition quit :: "js_error option \<Rightarrow> state \<Rightarrow> state" where
  "quit reason s =
     (case reason of
        None \<Rightarrow> emit (Kill 0) s
      | Some r \<Rightarrow>
          if isExpected r then emit (Kill 0) (emit (LogInfo (message r) []) s)
          else
            emit (Kill 1)
              (emit (ConsoleError
                 (if truthy (stack r) then template_str (stack r)
                  else ''Startup error: '' @ toString r)) s))"

subsection \<open>Observations on a run\<close>

text \<open>
  The operations of a run on the endpoint itself, in order: the calls of \<^verbatim>\<open>serve\<close>, of
  \<^verbatim>\<open>connect\<close> and of \<^verbatim>\<open>fs.unlinkSync\<close>.
\<close>

definition endpoint_ops :: "event list \<Rightarrow> event list" where
  "endpoint_ops es = filter (\<lambda>e. is_Serve e \<or> is_Connect e \<or> is_UnlinkSync e) es"



subsection \<open>Example configurations\<close>

text \<open>
  A host with exact arithmetic and the same host with the arithmetic of the running
  program, a configuration on Linux without flags, an error of a system call with a given
  code, a state before anything has happened, a world whose endpoint is stale (the address
  is in use once, nobody listens, the file can be deleted), and a world with a live peer
  that answers every request.
\<close>

definition example_host :: host where
  "example_host =
     \<lparr>applicationName = ''code'', totalmem = 8589934592, header_lines = [], fl = (\<lambda>x. x),
       number_toString = (\<lambda>n. [])\<rparr>"

definition binary64_host :: host where
  "binary64_host = example_host\<lparr>fl := binary64\<rparr>"

definition example_env :: environment where
  "example_env =
     \<lparr>isWindows = False, isMacintosh = False, nameShort = ''Code'',
      mainIPCHandle = ''/tmp/main.sock'', args = \<lparr>ps = False, argv = [''--open'', ''/tmp/x'']\<rparr>,
      wait = False, extensionTestsPath = None, debugExtensionHost_break = False,
      process_env = [(''A'', ''1'')]\<rparr>"

definition sys_error :: "string \<Rightarrow> js_error" where
  "sys_error c =
     \<lparr>ename = ''Error'', code = Some c, message = c, stack = None, isExpected = False\<rparr>"

definition initial_state :: state where
  "initial_state = \<lparr>trace = [], clock = 0, timers = []\<rparr>"

definition live_world :: world where
  "live_world =
     \<lparr>serve_result = (\<lambda>n. Inl (sys_error ''EADDRINUSE'')),
      connect_result = (\<lambda>n. Inr (Client n)),
      unlink_result = None,
      getMainProcessId_reply = Reply 5 (Inr 100),
      grant_result = Granted,
      getMainProcessInfo_reply = Reply 5 (Inr \<lparr>mainPID = 100, windows = []\<rparr>),
      listProcesses_reply = (\<lambda>p. Reply 20 (Inr (ProcessItem p ''electron'' 0 0 []))),
      start_reply = Reply 30 (Inr ()),
      captured_stack = None\<rparr>"

definition stale_world :: world where
  "stale_world =
     live_world
       \<lparr>serve_result := (\<lambda>n. if n = 0 then Inl (sys_error ''EADDRINUSE'') else Inr (Server n)),
        connect_result := (\<lambda>n. Inl (sys_error ''ECONNREFUSED''))\<rparr>"

section \<open>Properties of the formatter\<close>

subsection \<open>Evaluation and shape lemmas\<close>

declare digits.simps [simp del]

lemma digits_lt10: "n < 10 \<Longrightarrow> digits n = [''0123456789'' ! n]"
  by (subst digits.simps) simp

lemma digits_ge10: "10 \<le> n \<Longrightarrow> digits n = digits (n div 10) @ [''0123456789'' ! (n mod 10)]"
  by (subst digits.simps) simp

lemma replicate_numeral: "replicate (numeral k) x = x # replicate (pred_numeral k) x"
  by (simp add: numeral_eq_Suc)

lemmas format_eval =
  mapPidToWindowTitle_def row_def row_name_def pad_def num_str_def toFixed0_def mem_MB_def
  MB_def repeat_def template_str_def digits_lt10 digits_ge10 replicate_numeral

lemma fold_pushes:
  assumes "\<And>c out. c \<in> set cs \<Longrightarrow> f c out = out @ g c"
  shows "fold f cs out = out @ concat (map g cs)"
  using assms by (induction cs arbitrary: out) simp_all

lemma formatProcessItem_rows:
  "formatProcessItem H m outp item indent =
     outp @ map (\<lambda>(i, d). row H m i d) (preorder item indent)"
proof (induction H m outp item indent rule: formatProcessItem.induct)
  case (1 H m outp p n l me cs indent)
  have "fold (\<lambda>child out. formatProcessItem H m out child (indent + 1)) cs
          (outp @ [row H m (ProcessItem p n l me cs) indent]) =
        (outp @ [row H m (ProcessItem p n l me cs) indent]) @
          concat (map (\<lambda>child. map (\<lambda>(i, d). row H m i d) (preorder child (indent + 1))) cs)"
    by (rule fold_pushes) (use "1.IH" in simp)
  then show ?case
    by (simp add: map_concat comp_def)
qed

lemma length_preorder: "length (preorder item depth) = count_items item"
proof (induction item depth rule: preorder.induct)
  case (1 p n l me cs depth)
  have "map (\<lambda>child. length (preorder child (depth + 1))) cs = map count_items cs"
    using "1.IH" by simp
  then have "sum_list (map (\<lambda>child. length (preorder child (depth + 1))) cs) =
      sum_list (map count_items cs)"
    by (rule arg_cong [where f = sum_list])
  then show ?case
    by (simp add: length_concat comp_def)
qed

lemma preorder_depth: "list_all (\<lambda>x. depth \<le> snd x) (preorder item depth)"
proof (induction item depth rule: preorder.induct)
  case (1 p n l me cs depth)
  have "list_all (\<lambda>x. depth + 1 \<le> snd x) (preorder c (depth + 1))" if "c \<in> set cs" for c
    using "1.IH" that by simp
  then have "list_all (\<lambda>x. depth \<le> snd x) (preorder c (depth + 1))" if "c \<in> set cs" for c
    using that by (fastforce simp: list_all_iff)
  then show ?case
    by (simp add: list_all_iff)
qed

lemma preorder_below_root: "list_all (\<lambda>x. 0 < snd x) (tl (preorder item 0))"
proof (cases item)
  case (ProcessItem p n l me cs)
  have "list_all (\<lambda>x. 1 \<le> snd x) (preorder c 1)" for c
    by (rule preorder_depth)
  then show ?thesis
    using ProcessItem by (simp add: list_all_iff) force
qed

lemma repeat_spaces: "repeat ''  '' d = replicate (2 * d) CHR '' ''"
  by (induction d) (simp_all add: repeat_def)

lemma mapPid_fold:
  "fold (\<lambda>window m. m(window_pid window \<mapsto> title window)) ws m0 p =
     (case find (\<lambda>w. window_pid w = p) (rev ws) of Some w \<Rightarrow> Some (title w) | None \<Rightarrow> m0 p)"
  by (induction ws rule: rev_induct) simp_all

lemma mapPidToWindowTitle_find:
  "mapPidToWindowTitle info p =
     map_option title (find (\<lambda>w. window_pid w = p) (rev (windows info)))"
  by (simp add: mapPidToWindowTitle_def mapPid_fold split: option.splits)

lemma toFixed0_nearest: "\<bar>of_int (toFixed0 x) - x\<bar> \<le> 1 / 2"
proof (cases "x < 0")
  case True
  have eq: "toFixed0 x = - \<lfloor>- x + 1 / 2\<rfloor>"
    using True by (simp add: toFixed0_def)
  have "of_int \<lfloor>- x + 1 / 2\<rfloor> \<le> - x + 1 / 2" "- x + 1 / 2 < of_int \<lfloor>- x + 1 / 2\<rfloor> + 1"
    by linarith+
  then show ?thesis
    unfolding eq abs_le_iff of_int_minus by (intro conjI; linarith)
next
  case False
  have eq: "toFixed0 x = \<lfloor>x + 1 / 2\<rfloor>"
    using False by (simp add: toFixed0_def)
  have "of_int \<lfloor>x + 1 / 2\<rfloor> \<le> x + 1 / 2" "x + 1 / 2 < of_int \<lfloor>x + 1 / 2\<rfloor> + 1"
    by linarith+
  then show ?thesis
    unfolding eq abs_le_iff by (intro conjI; linarith)
qed

subsection \<open>The arithmetic of the running program\<close>

lemma round_even_near: "\<bar>of_int (round_even x) - x\<bar> \<le> 1 / 2"
proof -
  have a: "of_int \<lfloor>x\<rfloor> \<le> x" and b: "x < of_int \<lfloor>x\<rfloor> + 1"
    by linarith+
  show ?thesis
    using a b by (auto simp: round_even_def Let_def abs_le_iff)
qed

lemma floor_log2_bounds:
  assumes "x \<noteq> 0"
  shows "2 powi \<lfloor>log 2 \<bar>x\<bar>\<rfloor> \<le> \<bar>x\<bar>" "\<bar>x\<bar> < 2 powi (\<lfloor>log 2 \<bar>x\<bar>\<rfloor> + 1)"
proof -
  have p: "0 < \<bar>x\<bar>" using assms by simp
  have "(2::real) powr of_int \<lfloor>log 2 \<bar>x\<bar>\<rfloor> \<le> \<bar>x\<bar> \<and> \<bar>x\<bar> < 2 powr of_int (\<lfloor>log 2 \<bar>x\<bar>\<rfloor> + 1)"
    using floor_log_eq_powr_iff [of "\<bar>x\<bar>" 2 "\<lfloor>log 2 \<bar>x\<bar>\<rfloor>"] p by simp
  then show "2 powi \<lfloor>log 2 \<bar>x\<bar>\<rfloor> \<le> \<bar>x\<bar>" "\<bar>x\<bar> < 2 powi (\<lfloor>log 2 \<bar>x\<bar>\<rfloor> + 1)"
    by (simp_all add: powr_real_of_int' del: of_int_add)
qed

lemma floor_log2_eq:
  assumes "x \<noteq> 0" "2 powi e \<le> \<bar>x\<bar>" "\<bar>x\<bar> < 2 powi (e + 1)"
  shows "\<lfloor>log 2 \<bar>x\<bar>\<rfloor> = e"
proof -
  have p: "0 < \<bar>x\<bar>" using assms by simp
  have "(2::real) powr of_int e \<le> \<bar>x\<bar> \<and> \<bar>x\<bar> < 2 powr of_int (e + 1)"
    using assms(2,3) by (simp add: powr_real_of_int' del: of_int_add)
  then show ?thesis
    using floor_log_eq_powr_iff [of "\<bar>x\<bar>" 2 e] p by simp
qed

lemma binary64_eval:
  assumes "x \<noteq> 0" "2 powi e \<le> \<bar>x\<bar>" "\<bar>x\<bar> < 2 powi (e + 1)"
  shows "binary64 x = of_int (round_even (x * 2 powi (52 - e))) * 2 powi (e - 52)"
  by (simp add: binary64_def floor_log2_eq [OF assms] assms(1))

lemma binary64_error: "\<bar>binary64 x - x\<bar> \<le> (1 / 2 ^ 53) * \<bar>x\<bar>"
proof (cases "x = 0")
  case True
  then show ?thesis by (simp add: binary64_def)
next
  case False
  define e where "e = \<lfloor>log 2 \<bar>x\<bar>\<rfloor>"
  define m where "m = x * 2 powi (52 - e)"
  have lo: "2 powi e \<le> \<bar>x\<bar>"
    unfolding e_def by (rule floor_log2_bounds(1) [OF False])
  have b: "binary64 x = of_int (round_even m) * 2 powi (e - 52)"
    using False by (simp add: binary64_def e_def m_def Let_def)
  have x: "x = m * 2 powi (e - 52)"
    unfolding m_def by (simp add: power_int_add [symmetric] mult.assoc)
  have "binary64 x - x = (of_int (round_even m) - m) * 2 powi (e - 52)"
    by (subst (2) x) (simp add: b algebra_simps)
  then have "\<bar>binary64 x - x\<bar> = \<bar>of_int (round_even m) - m\<bar> * 2 powi (e - 52)"
    by (simp add: abs_mult)
  also have "\<dots> \<le> 1 / 2 * 2 powi (e - 52)"
    by (intro mult_right_mono round_even_near) simp
  also have "\<dots> = 2 powi e / 2 ^ 53"
    by (simp add: power_int_diff)
  also have "\<dots> \<le> \<bar>x\<bar> / 2 ^ 53"
    using lo by (simp add: divide_right_mono)
  finally show ?thesis by simp
qed

lemma round_step:
  fixes x x' y u k :: real
  assumes u: "0 \<le> u" and k: "0 \<le> k"
    and x': "\<bar>x' - x\<bar> \<le> k * \<bar>x\<bar>" and y: "\<bar>y - x'\<bar> \<le> u * \<bar>x'\<bar>"
  shows "\<bar>y - x\<bar> \<le> ((1 + k) * (1 + u) - 1) * \<bar>x\<bar>"
proof -
  have "\<bar>x'\<bar> \<le> \<bar>x\<bar> + k * \<bar>x\<bar>"
    using x' by linarith
  then have "u * \<bar>x'\<bar> \<le> u * (\<bar>x\<bar> + k * \<bar>x\<bar>)"
    using u by (rule mult_left_mono)
  then have "\<bar>y - x\<bar> \<le> u * (\<bar>x\<bar> + k * \<bar>x\<bar>) + k * \<bar>x\<bar>"
    using x' y by linarith
  also have "\<dots> = ((1 + k) * (1 + u) - 1) * \<bar>x\<bar>"
    by (simp add: algebra_simps)
  finally show ?thesis .
qed

lemma three_roundings:
  fixes T a M u :: real
  assumes u: "0 \<le> u" and M: "0 < M" and f: "\<And>y. \<bar>f y - y\<bar> \<le> u * \<bar>y\<bar>"
  shows "\<bar>f (f (T * f a) / M) - T * a / M\<bar> \<le> ((1 + u) ^ 3 - 1) * \<bar>T * a / M\<bar>"
proof -
  have k1: "\<bar>f a - a\<bar> \<le> u * \<bar>a\<bar>"
    by (rule f)
  have "\<bar>T * f a - T * a\<bar> = \<bar>T\<bar> * \<bar>f a - a\<bar>"
    by (simp add: abs_mult right_diff_distrib [symmetric])
  also have "\<dots> \<le> \<bar>T\<bar> * (u * \<bar>a\<bar>)"
    by (intro mult_left_mono k1) simp
  finally have s1: "\<bar>T * f a - T * a\<bar> \<le> u * \<bar>T * a\<bar>"
    by (simp add: abs_mult mult_ac)
  have s2: "\<bar>f (T * f a) - T * a\<bar> \<le> ((1 + u) * (1 + u) - 1) * \<bar>T * a\<bar>"
    by (rule round_step [OF u u s1 f])
  have k2: "0 \<le> (1 + u) * (1 + u) - 1"
    using u by (simp add: algebra_simps)
  have "\<bar>f (T * f a) / M - T * a / M\<bar> = \<bar>f (T * f a) - T * a\<bar> / M"
    using M by (simp add: diff_divide_distrib [symmetric])
  also have "\<dots> \<le> ((1 + u) * (1 + u) - 1) * \<bar>T * a\<bar> / M"
    using s2 M by (simp add: divide_right_mono)
  finally have s3: "\<bar>f (T * f a) / M - T * a / M\<bar> \<le> ((1 + u) * (1 + u) - 1) * \<bar>T * a / M\<bar>"
    using M by simp
  have "\<bar>f (f (T * f a) / M) - T * a / M\<bar> \<le>
      ((1 + ((1 + u) * (1 + u) - 1)) * (1 + u) - 1) * \<bar>T * a / M\<bar>"
    by (rule round_step [OF u k2 s3 f])
  then show ?thesis
    by (simp add: power3_eq_cube)
qed

lemma mem_MB_error:
  assumes "fl H = binary64"
  shows "\<bar>mem_MB H item - totalmem H * (mem item / 100) / (1024 * 1024)\<bar> \<le>
     ((1 + 1 / 2 ^ 53) ^ 3 - 1) * \<bar>totalmem H * (mem item / 100) / (1024 * 1024)\<bar>"
  unfolding mem_MB_def MB_def assms
proof (rule three_roundings)
  show "(0::real) \<le> 1 / 2 ^ 53" by simp
  show "(0::real) < 1024 * 1024" by simp
  show "\<bar>binary64 y - y\<bar> \<le> 1 / 2 ^ 53 * \<bar>y\<bar>" for y
    by (rule binary64_error)
qed

lemma binary64_host_sel:
  "fl binary64_host = binary64" "totalmem binary64_host = 8589934592"
  "applicationName binary64_host = ''code''"
  "fl (binary64_host\<lparr>totalmem := t\<rparr>) = binary64" "totalmem (binary64_host\<lparr>totalmem := t\<rparr>) = t"
  "applicationName (binary64_host\<lparr>totalmem := t\<rparr>) = ''code''"
  by (simp_all add: binary64_host_def example_host_def)

lemma binary64_zero: "binary64 0 = 0"
  by (simp add: binary64_def)

lemma binary64_quarter: "binary64 (25 / 100) = 1 / 4"
  by (subst binary64_eval [where e = "-2"]) (simp_all add: round_even_def)

lemma binary64_2_31: "binary64 (8589934592 * (1 / 4)) = 2147483648"
  by (subst binary64_eval [where e = 31]) (simp_all add: round_even_def)

lemma binary64_2048: "binary64 (2147483648 / (1024 * 1024)) = 2048"
  by (subst binary64_eval [where e = 11]) (simp_all add: round_even_def)

lemma binary64_three_tenths:
  "binary64 (5404319552844595 / 2 ^ 54 / 100) = 6917529027641082 / 2 ^ 61"
  by (subst binary64_eval [where e = "-9"]) (simp_all add: round_even_def)

lemma binary64_product:
  "binary64 (1572864000 * (6917529027641082 / 2 ^ 61)) = 4718592"
  by (subst binary64_eval [where e = 22]) (simp_all add: round_even_def)

lemma binary64_quotient: "binary64 (4718592 / (1024 * 1024)) = 9 / 2"
  by (subst binary64_eval [where e = 2]) (simp_all add: round_even_def)

lemma mem_MB_zero: "mem_MB binary64_host (ProcessItem p n l 0 cs) = 0"
  by (simp add: mem_MB_def binary64_host_sel binary64_zero)

lemma mem_MB_quarter: "mem_MB binary64_host (ProcessItem p n l 25 cs) = 2048"
  by (simp only: mem_MB_def MB_def binary64_host_sel ProcessItem.sel binary64_quarter
      binary64_2_31 binary64_2048)

lemma mem_MB_three_tenths:
  "mem_MB (binary64_host\<lparr>totalmem := 1572864000\<rparr>)
     (ProcessItem p n l (5404319552844595 / 2 ^ 54) cs) = 9 / 2"
  by (simp only: mem_MB_def MB_def binary64_host_sel ProcessItem.sel binary64_three_tenths
      binary64_product binary64_quotient)

subsection \<open>The window title of a renderer row\<close>

text \<open>
  Claim C8 says that a non-root row named as a window-hosting process carries the window
  title found under the item's pid in \<^verbatim>\<open>info.windows\<close>, and that the annotation is left out
  when the pid has no entry. The second half fails: \<^verbatim>\<open>mapPidToWindowTitle.get\<close> returns
  \<^verbatim>\<open>undefined\<close> there and the template literal prints it. With one window, of pid 8, the
  renderer of pid 7 gets the row ending in \<^verbatim>\<open>renderer (undefined)\<close>.
\<close>

theorem renderer_without_window_counterexample:
  "formatProcessItem
     \<lparr>applicationName = ''code'', totalmem = 8589934592, header_lines = [], fl = (\<lambda>x. x),
       number_toString = (\<lambda>n. [])\<rparr>
     (mapPidToWindowTitle \<lparr>mainPID = 1, windows = [\<lparr>window_pid = 8, title = ''a.ts''\<rparr>]\<rparr>) []
     (ProcessItem 1 ''electron'' 2 1 [ProcessItem 7 ''renderer'' 0 0 []]) 0 =
   [''    2'' @ [CHR 0x09] @ ''    82'' @ [CHR 0x09] @ ''code main'',
    ''    0'' @ [CHR 0x09] @ ''     0'' @ [CHR 0x09] @ ''   renderer (undefined)'']"
  by (simp add: format_eval)

text \<open>
  Claim C8, amended: the rows are those of the items in pre-order, every item after the
  root has a positive depth, and the name column of a \<^verbatim>\<open>renderer\<close> item at a positive
  depth is the indentation, the name, and in parentheses the title of the last window of
  \<^verbatim>\<open>info.windows\<close> with the item's pid, or the word \<^verbatim>\<open>undefined\<close> when no window has that
  pid. No case raises an error.
\<close>

theorem renderer_row_annotation:
  "formatProcessItem H (mapPidToWindowTitle info) outp item 0 =
     outp @ map (\<lambda>(i, d). row H (mapPidToWindowTitle info) i d) (preorder item 0)
   \<and> list_all (\<lambda>x. 0 < snd x) (tl (preorder item 0))
   \<and> row_name H (mapPidToWindowTitle info) (ProcessItem p ''renderer'' l me cs) (Suc d) =
       replicate (2 * Suc d) CHR '' '' @ '' renderer ('' @
         (case find (\<lambda>w. window_pid w = p) (rev (windows info)) of
            Some w \<Rightarrow> title w
          | None \<Rightarrow> ''undefined'') @ '')''"
  by (simp add: formatProcessItem_rows preorder_below_root row_name_def repeat_spaces
      mapPidToWindowTitle_find template_str_def split: option.splits)

theorem renderer_row_annotation_witness:
  "formatProcessItem
     \<lparr>applicationName = ''code'', totalmem = 8589934592, header_lines = [], fl = (\<lambda>x. x),
       number_toString = (\<lambda>n. [])\<rparr>
     (mapPidToWindowTitle
        \<lparr>mainPID = 1, windows = [\<lparr>window_pid = 8, title = ''a.ts''\<rparr>,
                                 \<lparr>window_pid = 8, title = ''b.ts''\<rparr>]\<rparr>) []
     (ProcessItem 1 ''electron'' 2 1 [ProcessItem 8 ''renderer'' 0 0 []]) 0 =
   [''    2'' @ [CHR 0x09] @ ''    82'' @ [CHR 0x09] @ ''code main'',
    ''    0'' @ [CHR 0x09] @ ''     0'' @ [CHR 0x09] @ ''   renderer (b.ts)'']"
  using renderer_row_annotation [of
      "\<lparr>applicationName = ''code'', totalmem = 8589934592, header_lines = [], fl = (\<lambda>x. x),
       number_toString = (\<lambda>n. [])\<rparr>"
      "\<lparr>mainPID = 1, windows = [\<lparr>window_pid = 8, title = ''a.ts''\<rparr>,
                                \<lparr>window_pid = 8, title = ''b.ts''\<rparr>]\<rparr>"
      "[]" "ProcessItem 1 ''electron'' 2 1 [ProcessItem 8 ''renderer'' 0 0 []]" 8 0 0 "[]" 0]
  by (simp add: format_eval)

subsection \<open>One row per item, in pre-order\<close>

text \<open>
  Claim C9 says that every process tree gives exactly one row per \<^verbatim>\<open>ProcessItem\<close>, in
  pre-order, indented by two spaces times the depth, the root unindented and named as the
  application's main process. The width of the indentation fails: line 255 builds the name
  column as \<^verbatim>\<open>repeat('  ', indent)\<close>, one more blank, and the name, so an item at depth 1
  is preceded by three blanks and not two, and one at depth 2 by five and not four.
\<close>

theorem indentation_counterexample:
  "row_name binary64_host Map.empty (ProcessItem 7 ''a'' 0 0 []) 1 = ''   a''
   \<and> row_name binary64_host Map.empty (ProcessItem 7 ''a'' 0 0 []) 1 \<noteq> ''  a''
   \<and> length (takeWhile (\<lambda>c. c = CHR '' '')
        (row_name binary64_host Map.empty (ProcessItem 7 ''a'' 0 0 []) 1)) = 3
   \<and> length (takeWhile (\<lambda>c. c = CHR '' '')
        (row_name binary64_host Map.empty (ProcessItem 9 ''b'' 0 0 []) 2)) = 5
   \<and> formatProcessItem binary64_host Map.empty []
        (ProcessItem 1 ''electron'' 2 25 [ProcessItem 7 ''a'' 0 0 [ProcessItem 9 ''b'' 0 0 []]]) 0 =
      [''    2'' @ [CHR 0x09] @ ''  2048'' @ [CHR 0x09] @ ''code main'',
       ''    0'' @ [CHR 0x09] @ ''     0'' @ [CHR 0x09] @ ''   a'',
       ''    0'' @ [CHR 0x09] @ ''     0'' @ [CHR 0x09] @ ''     b'']"
  by (simp add: row_def row_name_def pad_def num_str_def toFixed0_def repeat_def
      digits_lt10 digits_ge10 replicate_numeral mem_MB_zero mem_MB_quarter binary64_host_sel)

text \<open>
  Claim C9, amended: for every process tree the formatter pushes exactly one row per
  \<^verbatim>\<open>ProcessItem\<close>, in pre-order (the root first, then the children in their given order).
  The row of the root, at depth 0, has no indentation and is named as the application's
  main process whatever the item's own name; a row at depth \<open>d > 0\<close> starts its name
  column with two spaces times \<open>d\<close> (\<^verbatim>\<open>repeat('  ', indent)\<close>) and one separating space,
  \<open>2 * d + 1\<close> blanks in all, followed by the item's name. A root with two children
  without children of their own gives exactly three rows: the root's at depth 0, then the
  first child's and the second child's at depth 1.
\<close>

theorem formatProcessItem_preorder:
  "formatProcessItem H m outp item 0 = outp @ map (\<lambda>(i, d). row H m i d) (preorder item 0)
   \<and> length (preorder item 0) = count_items item
   \<and> row_name H m item 0 = applicationName H @ '' main''
   \<and> row_name H m (ProcessItem p n l me cs) (Suc d) =
       replicate (2 * Suc d) CHR '' '' @ '' '' @ n @
         (if n = ''renderer'' then '' ('' @ template_str (m p) @ '')'' else [])
   \<and> row_name H m (ProcessItem p n l me cs) (Suc d) =
       replicate (2 * Suc d + 1) CHR '' '' @ n @
         (if n = ''renderer'' then '' ('' @ template_str (m p) @ '')'' else [])
   \<and> map snd (preorder (ProcessItem p n l me
         [ProcessItem p1 n1 l1 me1 [], ProcessItem p2 n2 l2 me2 []]) 0) = [0, 1, 1]
   \<and> formatProcessItem H m outp
         (ProcessItem p n l me [ProcessItem p1 n1 l1 me1 [], ProcessItem p2 n2 l2 me2 []]) 0 =
       outp @
         [row H m (ProcessItem p n l me
            [ProcessItem p1 n1 l1 me1 [], ProcessItem p2 n2 l2 me2 []]) 0,
          row H m (ProcessItem p1 n1 l1 me1 []) 1,
          row H m (ProcessItem p2 n2 l2 me2 []) 1]
   \<and> formatProcessList H info item =
       join_lines (header_lines H @
         [[], ''CPU %'' @ [CHR 0x09] @ ''Mem MB'' @ [CHR 0x09] @ ''Process''] @
         map (\<lambda>(i, d). row H (mapPidToWindowTitle info) i d) (preorder item 0))"
proof -
  have "replicate (2 * Suc d + 1) CHR '' '' = replicate (2 * Suc d) CHR '' '' @ '' ''"
    by (simp only: replicate_add) simp
  then show ?thesis
    by (simp add: formatProcessItem_rows length_preorder row_name_def repeat_spaces
        formatProcessList_def del: replicate_Suc replicate.simps)
qed

theorem formatProcessItem_preorder_witness:
  "formatProcessItem binary64_host Map.empty []
     (ProcessItem 1 ''electron'' 2 25 [ProcessItem 7 ''a'' 0 0 [], ProcessItem 8 ''b'' 0 0 []]) 0 =
   [''    2'' @ [CHR 0x09] @ ''  2048'' @ [CHR 0x09] @ ''code main'',
    ''    0'' @ [CHR 0x09] @ ''     0'' @ [CHR 0x09] @ ''   a'',
    ''    0'' @ [CHR 0x09] @ ''     0'' @ [CHR 0x09] @ ''   b'']
   \<and> row_name binary64_host Map.empty (ProcessItem 9 ''renderer'' 0 0 []) 2 =
       ''     renderer (undefined)''"
  using formatProcessItem_preorder [of binary64_host Map.empty "[]"
      "ProcessItem 1 ''electron'' 2 25 [ProcessItem 7 ''a'' 0 0 [], ProcessItem 8 ''b'' 0 0 []]"
      9 "''renderer''" 0 0 "[]" 1]
  by (simp add: row_def row_name_def pad_def num_str_def toFixed0_def repeat_def template_str_def
      digits_lt10 digits_ge10 replicate_numeral mem_MB_zero mem_MB_quarter binary64_host_sel)

subsection \<open>The memory column\<close>

text \<open>
  Claim C10 says that the memory column of every row is the total system memory times the
  item's memory percentage over 100, divided by 1024 times 1024, rounded to the nearest
  integer. The program rounds three times before that: the percentage over 100, the
  product and the quotient are binary64 numbers. On a host of 1572864000 bytes an item
  whose percentage is the binary64 number nearest to 0.3 gets the column 5: the three
  roundings give 4.5 exactly and \<^verbatim>\<open>toFixed(0)\<close> takes the larger of two equally near
  integers. The quotient itself is below 4.5 and its nearest integer is 4.
\<close>

theorem memory_column_rounding_counterexample:
  "fl (binary64_host\<lparr>totalmem := 1572864000\<rparr>) = binary64
   \<and> mem_MB (binary64_host\<lparr>totalmem := 1572864000\<rparr>)
       (ProcessItem 7 ''a'' 0 (5404319552844595 / 2 ^ 54) []) = 9 / 2
   \<and> row (binary64_host\<lparr>totalmem := 1572864000\<rparr>) Map.empty
       (ProcessItem 7 ''a'' 0 (5404319552844595 / 2 ^ 54) []) 1 =
     ''    0'' @ [CHR 0x09] @ ''     5'' @ [CHR 0x09] @ ''   a''
   \<and> 1572864000 * (5404319552844595 / 2 ^ 54 / 100) / (1024 * 1024) < (9 / 2 :: real)
   \<and> toFixed0 (1572864000 * (5404319552844595 / 2 ^ 54 / 100) / (1024 * 1024)) = 4
   \<and> \<bar>4 - 1572864000 * (5404319552844595 / 2 ^ 54 / 100) / (1024 * 1024)\<bar> < (1 / 2 :: real)"
proof (intro conjI)
  show "fl (binary64_host\<lparr>totalmem := 1572864000\<rparr>) = binary64"
    by (simp add: binary64_host_sel)
  show m: "mem_MB (binary64_host\<lparr>totalmem := 1572864000\<rparr>)
       (ProcessItem 7 ''a'' 0 (5404319552844595 / 2 ^ 54) []) = 9 / 2"
    by (rule mem_MB_three_tenths)
  show "row (binary64_host\<lparr>totalmem := 1572864000\<rparr>) Map.empty
       (ProcessItem 7 ''a'' 0 (5404319552844595 / 2 ^ 54) []) 1 =
     ''    0'' @ [CHR 0x09] @ ''     5'' @ [CHR 0x09] @ ''   a''"
    unfolding row_def m
    by (simp add: row_name_def pad_def num_str_def toFixed0_def repeat_def
        digits_lt10 digits_ge10 replicate_numeral binary64_host_sel)
  show "1572864000 * (5404319552844595 / 2 ^ 54 / 100) / (1024 * 1024) < (9 / 2 :: real)"
    by simp
  show "toFixed0 (1572864000 * (5404319552844595 / 2 ^ 54 / 100) / (1024 * 1024)) = 4"
    by (simp add: toFixed0_def)
  show "\<bar>4 - 1572864000 * (5404319552844595 / 2 ^ 54 / 100) / (1024 * 1024)\<bar> < (1 / 2 :: real)"
    by simp
qed

text \<open>
  Claim C10, amended: in every row the memory column is the value
  \<^verbatim>\<open>(os.totalmem() * (item.mem / 100)) / MB\<close> as the host computes it, rounded to the nearest
  integer, the larger in magnitude of two equally near ones, and padded to six characters.
  The host rounds the percentage over 100, the product and the quotient. With exact
  arithmetic the value is the exact quotient. With binary64 arithmetic the value differs
  from the exact quotient \<open>q\<close> by at most \<open>((1 + 2\<^sup>-\<^sup>5\<^sup>3)\<^sup>3 - 1) * \<bar>q\<bar>\<close>, and the integer printed
  differs from \<open>q\<close> by at most one half more than that: it is the integer nearest to \<open>q\<close>
  or, when \<open>q\<close> is that close to the middle between two integers, the other neighbour.
\<close>

theorem row_memory_column:
  "row H m item indent =
     pad H (toFixed0 (load item)) 5 CHR '' '' @ [CHR 0x09] @
     pad H (toFixed0 (mem_MB H item)) 6 CHR '' '' @ [CHR 0x09] @ row_name H m item indent
   \<and> mem_MB H item = fl H (fl H (totalmem H * fl H (mem item / 100)) / (1024 * 1024))
   \<and> mem_MB (H\<lparr>fl := \<lambda>x. x\<rparr>) item = totalmem H * (mem item / 100) / (1024 * 1024)
   \<and> \<bar>of_int (toFixed0 (mem_MB H item)) - mem_MB H item\<bar> \<le> 1 / 2
   \<and> formatProcessItem H m outp item 0 = outp @ map (\<lambda>(i, d). row H m i d) (preorder item 0)
   \<and> (fl H = binary64 \<longrightarrow>
        \<bar>mem_MB H item - totalmem H * (mem item / 100) / (1024 * 1024)\<bar> \<le>
          ((1 + 1 / 2 ^ 53) ^ 3 - 1) * \<bar>totalmem H * (mem item / 100) / (1024 * 1024)\<bar>
        \<and> \<bar>of_int (toFixed0 (mem_MB H item)) - totalmem H * (mem item / 100) / (1024 * 1024)\<bar> \<le>
            1 / 2 + ((1 + 1 / 2 ^ 53) ^ 3 - 1) * \<bar>totalmem H * (mem item / 100) / (1024 * 1024)\<bar>)"
proof (intro conjI impI)
  show "row H m item indent =
     pad H (toFixed0 (load item)) 5 CHR '' '' @ [CHR 0x09] @
     pad H (toFixed0 (mem_MB H item)) 6 CHR '' '' @ [CHR 0x09] @ row_name H m item indent"
    by (simp add: row_def)
  show "mem_MB H item = fl H (fl H (totalmem H * fl H (mem item / 100)) / (1024 * 1024))"
    by (simp add: mem_MB_def MB_def)
  show "mem_MB (H\<lparr>fl := \<lambda>x. x\<rparr>) item = totalmem H * (mem item / 100) / (1024 * 1024)"
    by (simp add: mem_MB_def MB_def)
  show near: "\<bar>of_int (toFixed0 (mem_MB H item)) - mem_MB H item\<bar> \<le> 1 / 2"
    by (rule toFixed0_nearest)
  show "formatProcessItem H m outp item 0 = outp @ map (\<lambda>(i, d). row H m i d) (preorder item 0)"
    by (rule formatProcessItem_rows)
  assume b: "fl H = binary64"
  show err: "\<bar>mem_MB H item - totalmem H * (mem item / 100) / (1024 * 1024)\<bar> \<le>
      ((1 + 1 / 2 ^ 53) ^ 3 - 1) * \<bar>totalmem H * (mem item / 100) / (1024 * 1024)\<bar>"
    by (rule mem_MB_error [OF b])
  show "\<bar>of_int (toFixed0 (mem_MB H item)) - totalmem H * (mem item / 100) / (1024 * 1024)\<bar> \<le>
      1 / 2 + ((1 + 1 / 2 ^ 53) ^ 3 - 1) * \<bar>totalmem H * (mem item / 100) / (1024 * 1024)\<bar>"
    using near err by linarith
qed

theorem row_memory_column_witness:
  "fl binary64_host = binary64
   \<and> row binary64_host Map.empty (ProcessItem 7 ''a'' 3 25 []) 1 =
       ''    3'' @ [CHR 0x09] @ ''  2048'' @ [CHR 0x09] @ ''   a''
   \<and> \<bar>mem_MB binary64_host (ProcessItem 7 ''a'' 3 25 []) - 8589934592 * (25 / 100) / (1024 * 1024)\<bar> \<le>
       ((1 + 1 / 2 ^ 53) ^ 3 - 1) * \<bar>8589934592 * (25 / 100) / (1024 * 1024) :: real\<bar>"
proof -
  note t = row_memory_column [of binary64_host Map.empty "ProcessItem 7 ''a'' 3 25 []" 1 "[]"]
  have b: "fl binary64_host = binary64"
    by (simp add: binary64_host_sel)
  have r: "row binary64_host Map.empty (ProcessItem 7 ''a'' 3 25 []) 1 =
       ''    3'' @ [CHR 0x09] @ ''  2048'' @ [CHR 0x09] @ ''   a''"
    using t [THEN conjunct1]
    by (simp add: row_name_def pad_def num_str_def toFixed0_def repeat_def
        digits_lt10 digits_ge10 replicate_numeral mem_MB_quarter binary64_host_sel)
  have e: "\<bar>mem_MB binary64_host (ProcessItem 7 ''a'' 3 25 []) -
        8589934592 * (25 / 100) / (1024 * 1024)\<bar> \<le>
       ((1 + 1 / 2 ^ 53) ^ 3 - 1) * \<bar>8589934592 * (25 / 100) / (1024 * 1024) :: real\<bar>"
    using t [THEN conjunct2, THEN conjunct2, THEN conjunct2, THEN conjunct2, THEN conjunct2,
        THEN mp, OF b, THEN conjunct1]
    by (simp add: binary64_host_sel)
  show ?thesis
    using b r e by blast
qed

section \<open>Properties of the coordinator\<close>

subsection \<open>What each step adds to the trace\<close>

lemma trace_emit [simp]: "trace (emit e s) = trace s @ [e]"
  by (simp add: emit_def)

lemma timers_emit [simp]: "timers (emit e s) = timers s"
  by (simp add: emit_def)

lemma clock_emit [simp]: "clock (emit e s) = clock s"
  by (simp add: emit_def)

lemma filter_fire:
  assumes "\<And>m d. \<not> p (ShowStartupWarningDialog m d)"
  shows "filter p (fire ts) = []"
  by (induction ts) (simp_all add: fire_def assms)

lemma filter_elapse:
  assumes "\<And>m d. \<not> p (ShowStartupWarningDialog m d)"
  shows "filter p (trace (elapse d s)) = filter p (trace s)"
  by (simp add: elapse_def filter_fire assms)

lemma filter_elapse_forever:
  assumes "\<And>m d. \<not> p (ShowStartupWarningDialog m d)"
  shows "filter p (trace (elapse_forever s)) = filter p (trace s)"
  by (simp add: elapse_forever_def filter_fire assms)

lemma allowSetForegroundWindow_frame:
  assumes "\<And>e. p e \<Longrightarrow> is_Serve e \<or> is_Connect e \<or> is_UnlinkSync e \<or> is_RpcStart e
      \<or> is_SetTimeout e \<or> is_ClearTimeout e"
  shows "filter p (trace (snd (allowSetForegroundWindow E W s))) = filter p (trace s)"
proof -
  have np: "\<not> p e"
    if "\<not> is_Serve e" "\<not> is_Connect e" "\<not> is_UnlinkSync e" "\<not> is_RpcStart e"
      "\<not> is_SetTimeout e" "\<not> is_ClearTimeout e" for e
    using assms that by blast
  show ?thesis
    by (simp add: allowSetForegroundWindow_def Let_def np filter_elapse filter_elapse_forever
        split: reply.splits sum.splits grant.splits)
qed


lemma diagnose_frame:
  assumes "\<And>e. p e \<Longrightarrow> is_Serve e \<or> is_Connect e \<or> is_UnlinkSync e \<or> is_RpcStart e
      \<or> is_SetTimeout e \<or> is_ClearTimeout e"
  shows "filter p (trace (snd (diagnose H W s))) = filter p (trace s)"
proof -
  have np: "\<not> p e"
    if "\<not> is_Serve e" "\<not> is_Connect e" "\<not> is_UnlinkSync e" "\<not> is_RpcStart e"
      "\<not> is_SetTimeout e" "\<not> is_ClearTimeout e" for e
    using assms that by blast
  show ?thesis
    by (simp add: diagnose_def Let_def np filter_elapse filter_elapse_forever
        split: reply.splits sum.splits)
qed

lemma filter_clearTimeout:
  assumes "\<And>h. \<not> p (ClearTimeout h)"
  shows "filter p (trace (clearTimeout h s)) = filter p (trace s)"
  by (simp add: clearTimeout_def assms)

lemma forward_frame:
  assumes "\<And>e. p e \<Longrightarrow> is_Serve e \<or> is_Connect e \<or> is_UnlinkSync e \<or> is_SetTimeout e"
  shows "filter p (trace (snd (forward E W c h s))) = filter p (trace s)"
proof -
  have np: "\<not> p e"
    if "\<not> is_Serve e" "\<not> is_Connect e" "\<not> is_UnlinkSync e" "\<not> is_SetTimeout e" for e
    using assms that by blast
  define s2 where "s2 = emit (LogInfo ''Sending env to running instance...'' []) s"
  have s2: "filter p (trace s2) = filter p (trace s)"
    by (simp add: s2_def np)
  obtain r s3 where a: "allowSetForegroundWindow E W s2 = (r, s3)"
    by (cases "allowSetForegroundWindow E W s2")
  have "filter p (trace (snd (allowSetForegroundWindow E W s2))) = filter p (trace s2)"
    by (rule allowSetForegroundWindow_frame) (use assms in blast)
  then have s3: "filter p (trace s3) = filter p (trace s)"
    using a s2 by simp
  show ?thesis
    unfolding forward_def Let_def s2_def [symmetric] a
    by (cases r)
      (simp_all add: s3 np filter_elapse filter_elapse_forever filter_clearTimeout
        split: reply.splits sum.splits option.splits)
qed

lemma connected_frame:
  assumes "\<And>e. p e \<Longrightarrow> is_Serve e \<or> is_Connect e \<or> is_UnlinkSync e"
  shows "filter p (trace (snd (connected H E W c s))) = filter p (trace s)"
proof -
  have np: "\<not> p e" if "\<not> is_Serve e" "\<not> is_Connect e" "\<not> is_UnlinkSync e" for e
    using assms that by blast
  have d: "filter p (trace (snd (diagnose H W s'))) = filter p (trace s')" for s'
    by (rule diagnose_frame) (use assms in blast)
  have f: "filter p (trace (snd (forward E W c h s'))) = filter p (trace s')" for h s'
    by (rule forward_frame) (use assms in blast)
  show ?thesis
    by (simp add: connected_def Let_def setTimeout_def d f np)
qed

lemma endpoint_ops_connected:
  "endpoint_ops (trace (snd (connected H E W c s))) = endpoint_ops (trace s)"
  unfolding endpoint_ops_def by (rule connected_frame)


lemma endpoint_ops_append [simp]: "endpoint_ops (xs @ ys) = endpoint_ops xs @ endpoint_ops ys"
  by (simp add: endpoint_ops_def)

lemma endpoint_ops_simps [simp]:
  "endpoint_ops [] = []"
  "endpoint_ops (Serve h # es) = Serve h # endpoint_ops es"
  "endpoint_ops (Connect h # es) = Connect h # endpoint_ops es"
  "endpoint_ops (UnlinkSync h # es) = UnlinkSync h # endpoint_ops es"
  "endpoint_ops (DockShow # es) = endpoint_ops es"
  "endpoint_ops (DockHide # es) = endpoint_ops es"
  "endpoint_ops (ConsoleLog x # es) = endpoint_ops es"
  "endpoint_ops (LogInfo x y # es) = endpoint_ops es"
  "endpoint_ops (ShowStartupWarningDialog x z # es) = endpoint_ops es"
  by (simp_all add: endpoint_ops_def)

lemma setup'_False_endpoint_ops:
  "endpoint_ops (trace (snd (setup' H E W False s))) =
     endpoint_ops (trace s) @ Serve (mainIPCHandle E) #
       (case serve_result W (count_ev is_Serve (trace s)) of
          Inr server \<Rightarrow> []
        | Inl err \<Rightarrow> if code err = Some ''EADDRINUSE'' then [Connect (mainIPCHandle E)] else [])"
  by (subst setup'.simps)
    (simp add: Let_def endpoint_ops_connected showStartupWarningDialog_def split: sum.splits)

lemma setup'_stale:
  assumes "serve_result W (count_ev is_Serve (trace s)) = Inl e1" "code e1 = Some ''EADDRINUSE''"
    and "connect_result W (count_ev is_Connect (trace s)) = Inl e2"
    and "code e2 = Some ''ECONNREFUSED''" "\<not> isWindows E"
  shows "setup' H E W True s =
     (let s4 = emit (UnlinkSync (mainIPCHandle E)) (emit (Connect (mainIPCHandle E))
                 ((if isMacintosh E then emit DockHide else id) (emit (Serve (mainIPCHandle E)) s)))
      in case unlink_result W of
           Some e \<Rightarrow> (Rejected e,
             emit (LogInfo ''Fatal error deleting obsolete instance handle'' [toString e]) s4)
         | None \<Rightarrow> setup' H E W False s4)"
  by (subst setup'.simps) (simp add: Let_def assms split: option.splits)

lemma count_ev_append [simp]: "count_ev p (xs @ ys) = count_ev p xs + count_ev p ys"
  by (simp add: count_ev_def)

lemma count_ev_simps [simp]: "count_ev p [] = 0" "count_ev p (e # es) = (if p e then 1 else 0) + count_ev p es"
  by (simp_all add: count_ev_def)

lemma count_ev_endpoint_ops:
  assumes "\<And>e. p e \<Longrightarrow> is_Serve e \<or> is_Connect e \<or> is_UnlinkSync e"
  shows "count_ev p es = count_ev p (endpoint_ops es)"
  using assms by (induction es) (auto simp: endpoint_ops_def)

lemma setup'_False_no_unlink:
  "count_ev is_UnlinkSync (trace (snd (setup' H E W False s))) =
     count_ev is_UnlinkSync (trace s)"
  by (subst count_ev_endpoint_ops, simp, subst (2) count_ev_endpoint_ops, simp,
      simp only: setup'_False_endpoint_ops)
    (simp split: sum.splits)

lemma count_ev_connected:
  assumes "\<And>e. p e \<Longrightarrow> is_Serve e \<or> is_Connect e \<or> is_UnlinkSync e"
  shows "count_ev p (trace (snd (connected H E W c s))) = count_ev p (trace s)"
  unfolding count_ev_def by (simp add: connected_frame [OF assms])

lemma setup'_False_one_serve:
  "count_ev is_Serve (trace (snd (setup' H E W False s))) = Suc (count_ev is_Serve (trace s))"
  by (subst count_ev_endpoint_ops, simp, subst (2) count_ev_endpoint_ops, simp,
      simp only: setup'_False_endpoint_ops)
    (simp split: sum.splits)

lemma setup'_bounded:
  "count_ev is_Serve (trace (snd (setup' H E W retry s))) \<le>
     count_ev is_Serve (trace s) + (if retry then 2 else 1)"
  "count_ev is_UnlinkSync (trace (snd (setup' H E W retry s))) \<le>
     count_ev is_UnlinkSync (trace s) + (if retry then 1 else 0)"
proof -
  have "count_ev is_Serve (trace (snd (setup' H E W retry s))) \<le>
     count_ev is_Serve (trace s) + (if retry then 2 else 1)
   \<and> count_ev is_UnlinkSync (trace (snd (setup' H E W retry s))) \<le>
     count_ev is_UnlinkSync (trace s) + (if retry then 1 else 0)"
  proof (cases retry)
    case False
    then show ?thesis
      by (simp add: setup'_False_one_serve setup'_False_no_unlink)
  next
    case True
    show ?thesis
      unfolding True
      by (subst setup'.simps, subst (2) setup'.simps)
        (simp add: Let_def count_ev_connected setup'_False_one_serve setup'_False_no_unlink
          showStartupWarningDialog_def split: sum.splits option.splits)
  qed
  then show
    "count_ev is_Serve (trace (snd (setup' H E W retry s))) \<le>
       count_ev is_Serve (trace s) + (if retry then 2 else 1)"
    "count_ev is_UnlinkSync (trace (snd (setup' H E W retry s))) \<le>
       count_ev is_UnlinkSync (trace s) + (if retry then 1 else 0)"
    by simp_all
qed

subsection \<open>The stale endpoint: one deletion, one retry\<close>

text \<open>
  Claim C1: when the endpoint is stale (the first \<^verbatim>\<open>serve\<close> fails with the address in
  use, the first \<^verbatim>\<open>connect\<close> is refused, the retry is allowed and the platform is not
  Windows), the run deletes the endpoint file exactly once and then, the deletion having
  succeeded, is the run of \<^verbatim>\<open>setup(false)\<close> on the state after the deletion. The
  operations on the endpoint are then serve, connect, unlink, serve and at most one more
  connect: whatever the second attempt meets, a stale endpoint again included, there is no
  second deletion and no third \<^verbatim>\<open>serve\<close>. When the deletion fails the run ends after it.
  Each invocation of \<^verbatim>\<open>setup\<close> calls \<^verbatim>\<open>serve\<close> once, so the depth of the recursion is the
  number of these calls: in every run whatsoever there are at most two of them, and at most
  one deletion.
\<close>

theorem setup_stale_single_retry:
  assumes "serve_result W (count_ev is_Serve (trace s)) = Inl e1" "code e1 = Some ''EADDRINUSE''"
    and "connect_result W (count_ev is_Connect (trace s)) = Inl e2"
    and "code e2 = Some ''ECONNREFUSED''" "\<not> isWindows E"
  shows "endpoint_ops (trace (snd (setup' H E W True s))) =
       endpoint_ops (trace s) @
       [Serve (mainIPCHandle E), Connect (mainIPCHandle E), UnlinkSync (mainIPCHandle E)] @
       (case unlink_result W of
          Some e \<Rightarrow> []
        | None \<Rightarrow>
            Serve (mainIPCHandle E) #
              (case serve_result W (Suc (count_ev is_Serve (trace s))) of
                 Inr server \<Rightarrow> []
               | Inl err \<Rightarrow>
                   if code err = Some ''EADDRINUSE'' then [Connect (mainIPCHandle E)] else []))
     \<and> (case unlink_result W of
          Some e \<Rightarrow> fst (setup' H E W True s) = Rejected e
        | None \<Rightarrow>
            setup' H E W True s =
              setup' H E W False
                (emit (UnlinkSync (mainIPCHandle E)) (emit (Connect (mainIPCHandle E))
                   ((if isMacintosh E then emit DockHide else id)
                      (emit (Serve (mainIPCHandle E)) s)))))
     \<and> count_ev is_UnlinkSync (trace (snd (setup' H E W True s))) =
         Suc (count_ev is_UnlinkSync (trace s))
     \<and> count_ev is_Serve (trace (snd (setup' H E W True s))) =
         count_ev is_Serve (trace s) + (case unlink_result W of Some e \<Rightarrow> 1 | None \<Rightarrow> 2)
     \<and> count_ev is_Serve (trace (snd (setup' H' E' W' retry' s'))) \<le>
         count_ev is_Serve (trace s') + 2
     \<and> count_ev is_UnlinkSync (trace (snd (setup' H' E' W' retry' s'))) \<le>
         count_ev is_UnlinkSync (trace s') + 1"
proof -
  let ?h = "mainIPCHandle E"
  let ?s4 = "emit (UnlinkSync ?h) (emit (Connect ?h)
     ((if isMacintosh E then emit DockHide else id) (emit (Serve ?h) s)))"
  have st: "setup' H E W True s =
      (case unlink_result W of
         Some e \<Rightarrow> (Rejected e,
           emit (LogInfo ''Fatal error deleting obsolete instance handle'' [toString e]) ?s4)
       | None \<Rightarrow> setup' H E W False ?s4)"
    using setup'_stale [OF assms, of H] by (simp add: Let_def)
  have ops4: "endpoint_ops (trace ?s4) = endpoint_ops (trace s) @ [Serve ?h, Connect ?h, UnlinkSync ?h]"
    by simp
  have n4: "count_ev is_Serve (trace ?s4) = Suc (count_ev is_Serve (trace s))"
    by simp
  have ops: "endpoint_ops (trace (snd (setup' H E W True s))) =
       endpoint_ops (trace s) @ [Serve ?h, Connect ?h, UnlinkSync ?h] @
       (case unlink_result W of
          Some e \<Rightarrow> []
        | None \<Rightarrow>
            Serve ?h #
              (case serve_result W (Suc (count_ev is_Serve (trace s))) of
                 Inr server \<Rightarrow> []
               | Inl err \<Rightarrow> if code err = Some ''EADDRINUSE'' then [Connect ?h] else []))"
  proof (cases "unlink_result W")
    case None
    then show ?thesis
      by (simp only: st option.case setup'_False_endpoint_ops ops4 n4) simp
  next
    case (Some e)
    then show ?thesis
      by (simp only: st option.case snd_conv) simp
  qed
  note cnt = count_ev_endpoint_ops
  have u: "count_ev is_UnlinkSync (trace (snd (setup' H E W True s))) =
      Suc (count_ev is_UnlinkSync (trace s))"
    by (subst cnt, simp, subst (2) cnt, simp, simp only: ops)
      (simp split: option.splits sum.splits)
  have v: "count_ev is_Serve (trace (snd (setup' H E W True s))) =
      count_ev is_Serve (trace s) + (case unlink_result W of Some e \<Rightarrow> 1 | None \<Rightarrow> 2)"
    by (subst cnt, simp, subst (2) cnt, simp, simp only: ops)
      (simp split: option.splits sum.splits)
  have r: "case unlink_result W of
          Some e \<Rightarrow> fst (setup' H E W True s) = Rejected e
        | None \<Rightarrow> setup' H E W True s = setup' H E W False ?s4"
    by (simp add: st split: option.splits)
  have b1: "count_ev is_Serve (trace (snd (setup' H' E' W' retry' s'))) \<le>
      count_ev is_Serve (trace s') + 2"
    using setup'_bounded(1) [of H' E' W' retry' s'] by (simp split: if_splits)
  have b2: "count_ev is_UnlinkSync (trace (snd (setup' H' E' W' retry' s'))) \<le>
      count_ev is_UnlinkSync (trace s') + 1"
    using setup'_bounded(2) [of H' E' W' retry' s'] by (simp split: if_splits)
  show ?thesis
    using ops r u v b1 b2 by blast
qed

theorem setup_stale_single_retry_witness:
  "serve_result stale_world 0 = Inl (sys_error ''EADDRINUSE'')
   \<and> connect_result stale_world 0 = Inl (sys_error ''ECONNREFUSED'')
   \<and> endpoint_ops (trace (snd (setup' example_host example_env stale_world True initial_state))) =
       [Serve ''/tmp/main.sock'', Connect ''/tmp/main.sock'', UnlinkSync ''/tmp/main.sock'',
        Serve ''/tmp/main.sock'']
   \<and> endpoint_ops (trace (snd (setup' example_host example_env
         (stale_world\<lparr>serve_result := \<lambda>n. Inl (sys_error ''EADDRINUSE'')\<rparr>) True initial_state))) =
       [Serve ''/tmp/main.sock'', Connect ''/tmp/main.sock'', UnlinkSync ''/tmp/main.sock'',
        Serve ''/tmp/main.sock'', Connect ''/tmp/main.sock'']"
  using
    setup_stale_single_retry [where W = stale_world and s = initial_state and E = example_env
      and H = example_host and ?e1.0 = "sys_error ''EADDRINUSE''"
      and ?e2.0 = "sys_error ''ECONNREFUSED''", THEN conjunct1]
    setup_stale_single_retry [where W = "stale_world\<lparr>serve_result := \<lambda>n. Inl (sys_error ''EADDRINUSE'')\<rparr>"
      and s = initial_state and E = example_env
      and H = example_host and ?e1.0 = "sys_error ''EADDRINUSE''"
      and ?e2.0 = "sys_error ''ECONNREFUSED''", THEN conjunct1]
  by (simp add: stale_world_def live_world_def initial_state_def sys_error_def example_env_def)

subsection \<open>When the endpoint file is deleted\<close>

lemma setup'_live:
  assumes "serve_result W (count_ev is_Serve (trace s)) = Inl e1" "code e1 = Some ''EADDRINUSE''"
    and "connect_result W (count_ev is_Connect (trace s)) = Inr c"
  shows "setup' H E W retry s =
     connected H E W c
       (emit (Connect (mainIPCHandle E))
          ((if isMacintosh E then emit DockHide else id) (emit (Serve (mainIPCHandle E)) s)))"
  by (subst setup'.simps) (simp add: Let_def assms)

lemma setup'_connect_failed:
  assumes "serve_result W (count_ev is_Serve (trace s)) = Inl e1" "code e1 = Some ''EADDRINUSE''"
    and "connect_result W (count_ev is_Connect (trace s)) = Inl e2"
    and "\<not> retry \<or> isWindows E \<or> code e2 \<noteq> Some ''ECONNREFUSED''"
  shows "setup' H E W retry s =
     (Rejected e2,
      (if code e2 = Some ''EPERM''
       then emit (ShowStartupWarningDialog (fst (secondInstanceAdmin E)) (snd (secondInstanceAdmin E)))
       else id)
        (emit (Connect (mainIPCHandle E))
           ((if isMacintosh E then emit DockHide else id) (emit (Serve (mainIPCHandle E)) s))))"
  using assms(4)
  by (subst setup'.simps) (simp add: Let_def assms(1-3) showStartupWarningDialog_def)

lemma setup'_connect_failed_unlinks:
  assumes "serve_result W (count_ev is_Serve (trace s)) = Inl e1" "code e1 = Some ''EADDRINUSE''"
    and "connect_result W (count_ev is_Connect (trace s)) = Inl e2"
  shows "count_ev is_UnlinkSync (trace (snd (setup' H E W retry s))) =
       count_ev is_UnlinkSync (trace s) +
       (if code e2 = Some ''ECONNREFUSED'' \<and> retry \<and> \<not> isWindows E then 1 else 0)
     \<and> (if code e2 = Some ''ECONNREFUSED'' \<and> retry \<and> \<not> isWindows E
        then (case unlink_result W of
                Some e \<Rightarrow>
                  fst (setup' H E W retry s) = Rejected e
                  \<and> endpoint_ops (trace (snd (setup' H E W retry s))) =
                      endpoint_ops (trace s) @
                      [Serve (mainIPCHandle E), Connect (mainIPCHandle E),
                       UnlinkSync (mainIPCHandle E)]
              | None \<Rightarrow>
                  setup' H E W retry s =
                    setup' H E W False
                      (emit (UnlinkSync (mainIPCHandle E)) (emit (Connect (mainIPCHandle E))
                         ((if isMacintosh E then emit DockHide else id)
                            (emit (Serve (mainIPCHandle E)) s)))))
        else fst (setup' H E W retry s) = Rejected e2
             \<and> endpoint_ops (trace (snd (setup' H E W retry s))) =
                 endpoint_ops (trace s) @ [Serve (mainIPCHandle E), Connect (mainIPCHandle E)])"
proof (cases "code e2 = Some ''ECONNREFUSED'' \<and> retry \<and> \<not> isWindows E")
  case True
  then have r: "retry = True" and c: "code e2 = Some ''ECONNREFUSED''" and w: "\<not> isWindows E"
    by simp_all
  let ?s4 = "emit (UnlinkSync (mainIPCHandle E)) (emit (Connect (mainIPCHandle E))
     ((if isMacintosh E then emit DockHide else id) (emit (Serve (mainIPCHandle E)) s)))"
  have st: "setup' H E W True s =
      (case unlink_result W of
         Some e \<Rightarrow> (Rejected e,
           emit (LogInfo ''Fatal error deleting obsolete instance handle'' [toString e]) ?s4)
       | None \<Rightarrow> setup' H E W False ?s4)"
    using setup'_stale [OF assms(1,2,3) c w, of H] by (simp add: Let_def)
  show ?thesis
    using True unfolding r
    by (cases "unlink_result W") (simp_all add: st setup'_False_no_unlink)
next
  case False
  then have t: "\<not> retry \<or> isWindows E \<or> code e2 \<noteq> Some ''ECONNREFUSED''"
    by blast
  show ?thesis
    using False by (simp add: setup'_connect_failed [OF assms t])
qed

text \<open>
  Claim C2: in every run the endpoint file is deleted (once) if and only if the address was
  in use, the \<^verbatim>\<open>connect\<close> failed with \<^verbatim>\<open>ECONNREFUSED\<close>, the retry flag is set and the
  platform is not Windows; a run that binds, that fails to bind for another reason or that
  connects never deletes it. In every other case of a failed \<^verbatim>\<open>connect\<close> the run ends with
  the connect error and its operations on
  the endpoint are the one \<^verbatim>\<open>serve\<close> and the one \<^verbatim>\<open>connect\<close>. When the deletion itself
  fails the run ends with that error, with no \<^verbatim>\<open>serve\<close> after the deletion.
\<close>

theorem unlink_only_when_refused:
  "count_ev is_UnlinkSync (trace (snd (setup' H E W retry s))) =
     count_ev is_UnlinkSync (trace s) +
     (case serve_result W (count_ev is_Serve (trace s)) of
        Inr server \<Rightarrow> 0
      | Inl e1 \<Rightarrow>
          if code e1 \<noteq> Some ''EADDRINUSE'' then 0
          else (case connect_result W (count_ev is_Connect (trace s)) of
                  Inr client \<Rightarrow> 0
                | Inl e2 \<Rightarrow>
                    if code e2 = Some ''ECONNREFUSED'' \<and> retry \<and> \<not> isWindows E then 1 else 0))
   \<and> (serve_result W (count_ev is_Serve (trace s)) = Inl e1 \<and> code e1 = Some ''EADDRINUSE''
      \<and> connect_result W (count_ev is_Connect (trace s)) = Inl e2 \<longrightarrow>
        (if code e2 = Some ''ECONNREFUSED'' \<and> retry \<and> \<not> isWindows E
         then (case unlink_result W of
                 Some e \<Rightarrow>
                   fst (setup' H E W retry s) = Rejected e
                   \<and> endpoint_ops (trace (snd (setup' H E W retry s))) =
                       endpoint_ops (trace s) @
                       [Serve (mainIPCHandle E), Connect (mainIPCHandle E),
                        UnlinkSync (mainIPCHandle E)]
               | None \<Rightarrow>
                   setup' H E W retry s =
                     setup' H E W False
                       (emit (UnlinkSync (mainIPCHandle E)) (emit (Connect (mainIPCHandle E))
                          ((if isMacintosh E then emit DockHide else id)
                             (emit (Serve (mainIPCHandle E)) s)))))
         else fst (setup' H E W retry s) = Rejected e2
              \<and> endpoint_ops (trace (snd (setup' H E W retry s))) =
                  endpoint_ops (trace s) @ [Serve (mainIPCHandle E), Connect (mainIPCHandle E)]))"
proof (intro conjI impI)
  show "count_ev is_UnlinkSync (trace (snd (setup' H E W retry s))) =
     count_ev is_UnlinkSync (trace s) +
     (case serve_result W (count_ev is_Serve (trace s)) of
        Inr server \<Rightarrow> 0
      | Inl e1 \<Rightarrow>
          if code e1 \<noteq> Some ''EADDRINUSE'' then 0
          else (case connect_result W (count_ev is_Connect (trace s)) of
                  Inr client \<Rightarrow> 0
                | Inl e2 \<Rightarrow>
                    if code e2 = Some ''ECONNREFUSED'' \<and> retry \<and> \<not> isWindows E then 1 else 0))"
  proof (cases "serve_result W (count_ev is_Serve (trace s))")
    case (Inr server)
    then show ?thesis
      by (subst setup'.simps) (simp add: Let_def)
  next
    case (Inl e1)
    note serve = this
    show ?thesis
    proof (cases "code e1 = Some ''EADDRINUSE''")
      case False
      then show ?thesis
        by (subst setup'.simps) (simp add: Let_def serve)
    next
      case True
      note inuse = this
      show ?thesis
      proof (cases "connect_result W (count_ev is_Connect (trace s))")
        case (Inr client)
        show ?thesis
          by (simp add: setup'_live [OF serve inuse Inr] serve inuse Inr count_ev_connected)
      next
        case (Inl e2)
        show ?thesis
          using setup'_connect_failed_unlinks [OF serve inuse Inl, where H = H and retry = retry and E = E]
          by (simp add: serve inuse Inl)
      qed
    qed
  qed
next
  assume "serve_result W (count_ev is_Serve (trace s)) = Inl e1 \<and> code e1 = Some ''EADDRINUSE''
      \<and> connect_result W (count_ev is_Connect (trace s)) = Inl e2"
  then have a: "serve_result W (count_ev is_Serve (trace s)) = Inl e1"
    and b: "code e1 = Some ''EADDRINUSE''"
    and c: "connect_result W (count_ev is_Connect (trace s)) = Inl e2"
    by blast+
  show "if code e2 = Some ''ECONNREFUSED'' \<and> retry \<and> \<not> isWindows E
         then (case unlink_result W of
                 Some e \<Rightarrow>
                   fst (setup' H E W retry s) = Rejected e
                   \<and> endpoint_ops (trace (snd (setup' H E W retry s))) =
                       endpoint_ops (trace s) @
                       [Serve (mainIPCHandle E), Connect (mainIPCHandle E),
                        UnlinkSync (mainIPCHandle E)]
               | None \<Rightarrow>
                   setup' H E W retry s =
                     setup' H E W False
                       (emit (UnlinkSync (mainIPCHandle E)) (emit (Connect (mainIPCHandle E))
                          ((if isMacintosh E then emit DockHide else id)
                             (emit (Serve (mainIPCHandle E)) s)))))
         else fst (setup' H E W retry s) = Rejected e2
              \<and> endpoint_ops (trace (snd (setup' H E W retry s))) =
                  endpoint_ops (trace s) @ [Serve (mainIPCHandle E), Connect (mainIPCHandle E)]"
    using setup'_connect_failed_unlinks [OF a b c, where H = H and retry = retry and E = E] by blast
qed

theorem unlink_only_when_refused_witness:
  "count_ev is_UnlinkSync (trace (snd (setup' example_host example_env stale_world True initial_state))) = 1
   \<and> count_ev is_UnlinkSync (trace (snd (setup' example_host example_env
         (stale_world\<lparr>connect_result := \<lambda>n. Inl (sys_error ''EPERM'')\<rparr>) True initial_state))) = 0
   \<and> count_ev is_UnlinkSync (trace (snd (setup' example_host (example_env\<lparr>isWindows := True\<rparr>)
         stale_world True initial_state))) = 0
   \<and> setup' example_host example_env
         (stale_world\<lparr>unlink_result := Some (sys_error ''EACCES'')\<rparr>) True initial_state =
       (Rejected (sys_error ''EACCES''),
        \<lparr>trace = [Serve ''/tmp/main.sock'', Connect ''/tmp/main.sock'',
                  UnlinkSync ''/tmp/main.sock'',
                  LogInfo ''Fatal error deleting obsolete instance handle'' [''Error: EACCES'']],
         clock = 0, timers = []\<rparr>)
   \<and> count_ev is_UnlinkSync (trace (snd (setup' example_host example_env live_world True
         initial_state))) = 0"
  using
    unlink_only_when_refused [where W = live_world and s = initial_state and E = example_env
      and H = example_host and retry = True, THEN conjunct1]
    unlink_only_when_refused [where W = "stale_world\<lparr>unlink_result := Some (sys_error ''EACCES'')\<rparr>"
      and s = initial_state and E = example_env
      and H = example_host and retry = True and ?e1.0 = "sys_error ''EADDRINUSE''"
      and ?e2.0 = "sys_error ''ECONNREFUSED''", THEN conjunct2]
    unlink_only_when_refused [where W = stale_world and s = initial_state and E = example_env
      and H = example_host and retry = True and ?e1.0 = "sys_error ''EADDRINUSE''"
      and ?e2.0 = "sys_error ''ECONNREFUSED''", THEN conjunct1]
    unlink_only_when_refused [where W = "stale_world\<lparr>connect_result := \<lambda>n. Inl (sys_error ''EPERM'')\<rparr>"
      and s = initial_state and E = example_env
      and H = example_host and retry = True and ?e1.0 = "sys_error ''EADDRINUSE''"
      and ?e2.0 = "sys_error ''EPERM''", THEN conjunct1]
    unlink_only_when_refused [where W = stale_world and s = initial_state
      and E = "example_env\<lparr>isWindows := True\<rparr>"
      and H = example_host and retry = True and ?e1.0 = "sys_error ''EADDRINUSE''"
      and ?e2.0 = "sys_error ''ECONNREFUSED''", THEN conjunct1]
  by (simp add: stale_world_def live_world_def initial_state_def sys_error_def example_env_def
      setup'.simps emit_def toString_def)

subsection \<open>A peer running as administrator\<close>

text \<open>
  Claim C5 says that a \<^verbatim>\<open>connect\<close> failing with permission denied surfaces a distinct
  outcome to the caller rather than the generic connect failure. The code has no such
  outcome: the run is rejected with the very error that \<^verbatim>\<open>connect\<close> gave, by the
  \<^verbatim>\<open>return\<close> of line 195 that every connect failure ending the run takes, and \<^verbatim>\<open>quit\<close>
  treats it as any failure (standard error, exit code 1), as it does a timeout.
\<close>

theorem eperm_same_outcome_counterexample:
  "connect_result (live_world\<lparr>connect_result := \<lambda>n. Inl (sys_error ''EPERM'')\<rparr>) 0 =
     Inl (sys_error ''EPERM'')
   \<and> fst (setupIPC example_host example_env
        (live_world\<lparr>connect_result := \<lambda>n. Inl (sys_error ''EPERM'')\<rparr>) initial_state) =
      Rejected (sys_error ''EPERM'')
   \<and> fst (setupIPC example_host example_env
        (live_world\<lparr>connect_result := \<lambda>n. Inl (sys_error ''ETIMEDOUT'')\<rparr>) initial_state) =
      Rejected (sys_error ''ETIMEDOUT'')
   \<and> trace (quit (Some (sys_error ''EPERM'')) initial_state) =
      [ConsoleError ''Startup error: Error: EPERM'', Kill 1]
   \<and> trace (quit (Some (sys_error ''ETIMEDOUT'')) initial_state) =
      [ConsoleError ''Startup error: Error: ETIMEDOUT'', Kill 1]"
  by (simp add: setupIPC_def setup'.simps live_world_def initial_state_def sys_error_def
      example_env_def emit_def quit_def truthy_def toString_def showStartupWarningDialog_def)

text \<open>
  Claim C5, amended: when \<^verbatim>\<open>connect\<close> fails with \<^verbatim>\<open>EPERM\<close> the coordinator itself
  requests the dialog that says a second instance is already running as administrator,
  and then rejects with the unchanged connect error, as for every other connect failure
  that ends the run, which requests no dialog. The caller gets no separate outcome: the
  error is told apart by its code only, and \<^verbatim>\<open>quit\<close> ends with exit code 1 for it unless
  it is marked as expected.
\<close>

theorem eperm_admin_dialog:
  assumes "serve_result W (count_ev is_Serve (trace s)) = Inl e1" "code e1 = Some ''EADDRINUSE''"
    and "connect_result W (count_ev is_Connect (trace s)) = Inl e2"
  shows "(code e2 = Some ''EPERM'' \<longrightarrow>
        setup' H E W retry s =
          (Rejected e2,
           emit (ShowStartupWarningDialog
                  (''A second instance of '' @ nameShort E @ '' is already running as administrator.'')
                  ''Please close the other instance and try again.'')
             (emit (Connect (mainIPCHandle E))
                ((if isMacintosh E then emit DockHide else id) (emit (Serve (mainIPCHandle E)) s)))))
     \<and> (code e2 \<noteq> Some ''EPERM'' \<and> (\<not> retry \<or> isWindows E \<or> code e2 \<noteq> Some ''ECONNREFUSED'') \<longrightarrow>
        setup' H E W retry s =
          (Rejected e2,
           emit (Connect (mainIPCHandle E))
             ((if isMacintosh E then emit DockHide else id) (emit (Serve (mainIPCHandle E)) s))))
     \<and> last (trace (quit (Some e2) st)) = Kill (if isExpected e2 then 0 else 1)"
proof (intro conjI impI)
  show "last (trace (quit (Some e2) st)) = Kill (if isExpected e2 then 0 else 1)"
    by (simp add: quit_def)
next
  assume p: "code e2 = Some ''EPERM''"
  then have t: "\<not> retry \<or> isWindows E \<or> code e2 \<noteq> Some ''ECONNREFUSED''"
    by simp
  show "setup' H E W retry s =
          (Rejected e2,
           emit (ShowStartupWarningDialog
                  (''A second instance of '' @ nameShort E @ '' is already running as administrator.'')
                  ''Please close the other instance and try again.'')
             (emit (Connect (mainIPCHandle E))
                ((if isMacintosh E then emit DockHide else id) (emit (Serve (mainIPCHandle E)) s))))"
    by (simp add: setup'_connect_failed [OF assms t] p secondInstanceAdmin_def)
next
  assume "code e2 \<noteq> Some ''EPERM'' \<and> (\<not> retry \<or> isWindows E \<or> code e2 \<noteq> Some ''ECONNREFUSED'')"
  then have p: "code e2 \<noteq> Some ''EPERM''"
    and t: "\<not> retry \<or> isWindows E \<or> code e2 \<noteq> Some ''ECONNREFUSED''"
    by simp_all
  show "setup' H E W retry s =
          (Rejected e2,
           emit (Connect (mainIPCHandle E))
             ((if isMacintosh E then emit DockHide else id) (emit (Serve (mainIPCHandle E)) s)))"
    by (simp add: setup'_connect_failed [OF assms t] p)
qed

theorem eperm_admin_dialog_witness:
  "setupIPC example_host example_env
     (live_world\<lparr>connect_result := \<lambda>n. Inl (sys_error ''EPERM'')\<rparr>) initial_state =
     (Rejected (sys_error ''EPERM''),
      \<lparr>trace = [Serve ''/tmp/main.sock'', Connect ''/tmp/main.sock'',
                ShowStartupWarningDialog
                  ''A second instance of Code is already running as administrator.''
                  ''Please close the other instance and try again.''],
       clock = 0, timers = []\<rparr>)
   \<and> setupIPC example_host example_env
     (live_world\<lparr>connect_result := \<lambda>n. Inl (sys_error ''ETIMEDOUT'')\<rparr>) initial_state =
     (Rejected (sys_error ''ETIMEDOUT''),
      \<lparr>trace = [Serve ''/tmp/main.sock'', Connect ''/tmp/main.sock''],
       clock = 0, timers = []\<rparr>)"
  using
    eperm_admin_dialog [where W = "live_world\<lparr>connect_result := \<lambda>n. Inl (sys_error ''EPERM'')\<rparr>"
      and s = initial_state and E = example_env and H = example_host and retry = True
      and ?e1.0 = "sys_error ''EADDRINUSE''" and ?e2.0 = "sys_error ''EPERM''", THEN conjunct1]
    eperm_admin_dialog [where W = "live_world\<lparr>connect_result := \<lambda>n. Inl (sys_error ''ETIMEDOUT'')\<rparr>"
      and s = initial_state and E = example_env and H = example_host and retry = True
      and ?e1.0 = "sys_error ''EADDRINUSE''" and ?e2.0 = "sys_error ''ETIMEDOUT''",
      THEN conjunct2, THEN conjunct1]
  by (simp add: setupIPC_def live_world_def initial_state_def sys_error_def example_env_def emit_def)

subsection \<open>The exit code\<close>

text \<open>
  Claim C4: for every reason passed to \<^verbatim>\<open>quit\<close>: without a reason the process is killed
  with exit code 0 and nothing is logged; with a reason marked as expected, as the
  \<^verbatim>\<open>ExpectedError\<close> of the forwarding and of the diagnostic path is, its message is logged as
  information and the exit code is 0, with nothing written to standard error; with any
  other reason the exit code is 1 and standard error receives the stack when there is a
  non-empty one, and otherwise the line \<^verbatim>\<open>Startup error: \<close> followed by the error's
  \<^verbatim>\<open>toString()\<close>.
\<close>

theorem quit_exit_code:
  "trace (quit reason s) =
     trace s @
     (case reason of
        None \<Rightarrow> [Kill 0]
      | Some r \<Rightarrow>
          if isExpected r then [LogInfo (message r) [], Kill 0]
          else [ConsoleError
                  (case stack r of
                     None \<Rightarrow> ''Startup error: '' @ toString r
                   | Some st \<Rightarrow> if st = [] then ''Startup error: '' @ toString r else st),
                Kill 1])
   \<and> trace (quit (Some (ExpectedError st msg)) s) = trace s @ [LogInfo msg [], Kill 0]
   \<and> clock (quit reason s) = clock s
   \<and> timers (quit reason s) = timers s"
  by (simp add: quit_def truthy_def template_str_def ExpectedError_def split: option.splits)

subsection \<open>Diagnostic mode\<close>

lemma connected_no_start:
  assumes "ps (args E)"
  shows "filter is_RpcStart (trace (snd (connected H E W c s))) = filter is_RpcStart (trace s)"
proof -
  have d: "filter is_RpcStart (trace (snd (diagnose H W s'))) = filter is_RpcStart (trace s')" for s'
    by (rule diagnose_frame) simp
  show ?thesis
    by (simp add: connected_def Let_def setTimeout_def d assms)
qed

lemma setup'_False_no_start:
  assumes "ps (args E)"
  shows "filter is_RpcStart (trace (snd (setup' H E W False s))) = filter is_RpcStart (trace s)"
  by (subst setup'.simps)
    (simp add: Let_def connected_no_start [OF assms] showStartupWarningDialog_def
      split: sum.splits)

lemma setup'_no_start:
  assumes "ps (args E)"
  shows "filter is_RpcStart (trace (snd (setup' H E W retry s))) = filter is_RpcStart (trace s)"
proof (cases retry)
  case False
  then show ?thesis
    by (simp add: setup'_False_no_start [OF assms])
next
  case True
  show ?thesis
    unfolding True
    by (subst setup'.simps)
      (simp add: Let_def connected_no_start [OF assms] setup'_False_no_start [OF assms]
        showStartupWarningDialog_def split: sum.splits option.splits)
qed

lemma connected_diagnose:
  assumes "\<not> (truthy (extensionTestsPath E) \<and> \<not> debugExtensionHost_break E)" "ps (args E)"
  shows "connected H E W c s =
     diagnose H W (if wait E then s else snd (setTimeout (secondInstanceNoResponse E) 10000 s))"
  using assms by (auto simp: connected_def Let_def split: prod.splits)


lemma diagnose_report:
  assumes "getMainProcessInfo_reply W = Reply d (Inr info)"
    and "listProcesses_reply W (mainPID info) = Reply d' (Inr rootProcess)"
  shows "diagnose H W s =
     (Rejected (ExpectedError (captured_stack W) []),
      emit (ConsoleLog (formatProcessList H info rootProcess))
        (elapse d' (emit (ListProcesses (mainPID info)) (elapse d (emit RpcGetMainProcessInfo s)))))"
  by (simp add: diagnose_def Let_def assms)

text \<open>
  Claim C3 says that every run in diagnostic mode that reaches a live peer never calls
  \<^verbatim>\<open>start\<close> and ends with the expected outcome after printing the report. The second half
  fails for a run that is also a run of extension tests (\<^verbatim>\<open>extensionTestsPath\<close> set, no
  \<^verbatim>\<open>debugExtensionHost.break\<close>): the check of line 137 comes before the diagnostic branch,
  so the run logs an error, disposes the connection and is rejected with an ordinary
  \<^verbatim>\<open>Error\<close>; no report is printed.
\<close>

theorem diagnostic_test_run_counterexample:
  "setupIPC example_host
     (example_env\<lparr>args := \<lparr>ps = True, argv = []\<rparr>, extensionTestsPath := Some ''/ext/test''\<rparr>)
     live_world initial_state =
     (Rejected (Error None tests_msg),
      \<lparr>trace = [Serve ''/tmp/main.sock'', Connect ''/tmp/main.sock'', LogError tests_msg,
                ClientDispose (Client 0)],
       clock = 0, timers = []\<rparr>)
   \<and> isExpected (Error None tests_msg) = False"
  by (simp add: setupIPC_def setup'.simps connected_def truthy_def live_world_def
      initial_state_def sys_error_def example_env_def emit_def Error_def)

text \<open>
  Claim C3, amended: in diagnostic mode no run ever calls \<^verbatim>\<open>start\<close>, whatever the world
  does. A run in diagnostic mode that reaches a live peer, is not a run of extension tests
  that must be the only instance, and gets an answer with a value both from
  \<^verbatim>\<open>getMainProcessInfo\<close> and from \<^verbatim>\<open>listProcesses\<close>, prints the report as its last effect
  and is rejected with the \<^verbatim>\<open>ExpectedError\<close>, for which \<^verbatim>\<open>quit\<close> logs the (empty) message
  and exits with code 0.
\<close>

theorem diagnostic_never_starts:
  assumes "ps (args E)"
  shows "count_ev is_RpcStart (trace (snd (setup' H E W retry s))) = count_ev is_RpcStart (trace s)
     \<and> (serve_result W (count_ev is_Serve (trace s)) = Inl e1 \<and> code e1 = Some ''EADDRINUSE''
        \<and> connect_result W (count_ev is_Connect (trace s)) = Inr c
        \<and> \<not> (truthy (extensionTestsPath E) \<and> \<not> debugExtensionHost_break E)
        \<and> getMainProcessInfo_reply W = Reply d (Inr info)
        \<and> listProcesses_reply W (mainPID info) = Reply d' (Inr rootProcess) \<longrightarrow>
          fst (setup' H E W retry s) = Rejected (ExpectedError (captured_stack W) [])
        \<and> isExpected (ExpectedError (captured_stack W) [])
        \<and> last (trace (snd (setup' H E W retry s))) =
            ConsoleLog (formatProcessList H info rootProcess)
        \<and> trace (quit (Some (ExpectedError (captured_stack W) [])) (snd (setup' H E W retry s))) =
            trace (snd (setup' H E W retry s)) @ [LogInfo [] [], Kill 0])"
proof (intro conjI impI)
  show "count_ev is_RpcStart (trace (snd (setup' H E W retry s))) = count_ev is_RpcStart (trace s)"
    by (simp add: count_ev_def setup'_no_start [OF assms])
next
  assume a: "serve_result W (count_ev is_Serve (trace s)) = Inl e1 \<and> code e1 = Some ''EADDRINUSE''
        \<and> connect_result W (count_ev is_Connect (trace s)) = Inr c
        \<and> \<not> (truthy (extensionTestsPath E) \<and> \<not> debugExtensionHost_break E)
        \<and> getMainProcessInfo_reply W = Reply d (Inr info)
        \<and> listProcesses_reply W (mainPID info) = Reply d' (Inr rootProcess)"
  then have a1: "serve_result W (count_ev is_Serve (trace s)) = Inl e1"
    and a2: "code e1 = Some ''EADDRINUSE''"
    and a3: "connect_result W (count_ev is_Connect (trace s)) = Inr c"
    and a4: "getMainProcessInfo_reply W = Reply d (Inr info)"
    and a5: "listProcesses_reply W (mainPID info) = Reply d' (Inr rootProcess)"
    by blast+
  have live: "setup' H E W retry s =
     connected H E W c
       (emit (Connect (mainIPCHandle E))
          ((if isMacintosh E then emit DockHide else id) (emit (Serve (mainIPCHandle E)) s)))"
    by (rule setup'_live [OF a1 a2 a3])
  have rep: "diagnose H W s' =
     (Rejected (ExpectedError (captured_stack W) []),
      emit (ConsoleLog (formatProcessList H info rootProcess))
        (elapse d' (emit (ListProcesses (mainPID info)) (elapse d (emit RpcGetMainProcessInfo s')))))"
    for s'
    by (rule diagnose_report [OF a4 a5])
  from a have nc: "\<not> (truthy (extensionTestsPath E) \<and> \<not> debugExtensionHost_break E)"
    by simp
  show "fst (setup' H E W retry s) = Rejected (ExpectedError (captured_stack W) [])"
    by (simp add: live connected_diagnose [OF nc assms] rep)
  show "isExpected (ExpectedError (captured_stack W) [])"
    by (simp add: ExpectedError_def)
  show "last (trace (snd (setup' H E W retry s))) =
            ConsoleLog (formatProcessList H info rootProcess)"
    by (simp add: live connected_diagnose [OF nc assms] rep)
  show "trace (quit (Some (ExpectedError (captured_stack W) [])) (snd (setup' H E W retry s))) =
            trace (snd (setup' H E W retry s)) @ [LogInfo [] [], Kill 0]"
    by (simp add: quit_def ExpectedError_def)
qed

theorem diagnostic_never_starts_witness:
  "setupIPC example_host (example_env\<lparr>args := \<lparr>ps = True, argv = []\<rparr>, wait := True\<rparr>)
     live_world initial_state =
     (Rejected (ExpectedError None []),
      \<lparr>trace = [Serve ''/tmp/main.sock'', Connect ''/tmp/main.sock'', RpcGetMainProcessInfo,
                ListProcesses 100,
                ConsoleLog (formatProcessList example_host \<lparr>mainPID = 100, windows = []\<rparr>
                  (ProcessItem 100 ''electron'' 0 0 []))],
       clock = 25, timers = []\<rparr>)
   \<and> count_ev is_RpcStart (trace (snd (setup' example_host
        (example_env\<lparr>args := \<lparr>ps = True, argv = []\<rparr>, wait := True\<rparr>) live_world True
        initial_state))) = 0"
  using diagnostic_never_starts [where E = "example_env\<lparr>args := \<lparr>ps = True, argv = []\<rparr>, wait := True\<rparr>"
      and H = example_host and W = live_world and retry = True and s = initial_state,
      THEN conjunct1]
  by (simp add: setupIPC_def setup'.simps connected_def diagnose_def truthy_def live_world_def
      initial_state_def sys_error_def example_env_def emit_def elapse_def fire_def)

subsection \<open>The foreground grant\<close>

lemma fst_allowSetForegroundWindow:
  "fst (allowSetForegroundWindow E W s) =
     (if isWindows E then
        (case getMainProcessId_reply W of
           Never \<Rightarrow> Pending
         | Reply d r \<Rightarrow> (case r of Inl e \<Rightarrow> Rejected e | Inr processId \<Rightarrow> Resolved ()))
      else Resolved ())"
  by (simp add: allowSetForegroundWindow_def Let_def split: reply.splits sum.splits)

lemma forward_granted:
  assumes "allowSetForegroundWindow E W (emit (LogInfo ''Sending env to running instance...'' []) s) =
      (Resolved (), s3)"
  shows "forward E W c h s =
     (case start_reply W of
        Never \<Rightarrow> (Pending, elapse_forever (emit (RpcStart (args E) (process_env E)) s3))
      | Reply d r \<Rightarrow>
          (case r of
             Inl e \<Rightarrow> (Rejected e, elapse d (emit (RpcStart (args E) (process_env E)) s3))
           | Inr ack \<Rightarrow>
               (Rejected (ExpectedError (captured_stack W)
                  ''Sent env to running instance. Terminating...''),
                (case h of Some t \<Rightarrow> clearTimeout t | None \<Rightarrow> id)
                  (emit (ClientDispose c)
                     (elapse d (emit (RpcStart (args E) (process_env E)) s3))))))"
  by (simp add: forward_def Let_def assms split: reply.splits sum.splits option.splits)

lemma allowSetForegroundWindow_no_start:
  "filter is_RpcStart (trace (snd (allowSetForegroundWindow E W s))) = filter is_RpcStart (trace s)"
  by (rule allowSetForegroundWindow_frame) simp

lemma allowSetForegroundWindow_cases:
  "allowSetForegroundWindow E W s =
     (if isWindows E then
        (case getMainProcessId_reply W of
           Never \<Rightarrow> (Pending, elapse_forever (emit RpcGetMainProcessId s))
         | Reply d r \<Rightarrow>
             (case r of
                Inl e \<Rightarrow> (Rejected e, elapse d (emit RpcGetMainProcessId s))
              | Inr processId \<Rightarrow>
                  (Resolved (),
                   (case grant_result W of
                      RequireThrows \<Rightarrow> id
                    | CallThrows \<Rightarrow> emit (AllowSetForegroundWindow processId)
                    | Granted \<Rightarrow> emit (AllowSetForegroundWindow processId))
                     (emit (NodeRequire ''windows-foreground-love'')
                        (emit (LogInfo ''Sending some foreground love to the running instance:''
                                 [digits processId])
                           (elapse d (emit RpcGetMainProcessId s)))))))
      else (Resolved (), s))"
  by (simp add: allowSetForegroundWindow_def Let_def split: reply.splits sum.splits grant.splits)

lemma forward_start_count:
  "count_ev is_RpcStart (trace (snd (forward E W c h s))) =
     count_ev is_RpcStart (trace s) +
     (if isWindows E
      then (case getMainProcessId_reply W of
              Never \<Rightarrow> 0
            | Reply d r \<Rightarrow> (case r of Inl e \<Rightarrow> 0 | Inr processId \<Rightarrow> 1))
      else 1)"
proof -
  let ?s2 = "emit (LogInfo ''Sending env to running instance...'' []) s"
  obtain r s3 where a: "allowSetForegroundWindow E W ?s2 = (r, s3)"
    by (cases "allowSetForegroundWindow E W ?s2")
  have "filter is_RpcStart (trace (snd (allowSetForegroundWindow E W ?s2))) =
      filter is_RpcStart (trace ?s2)"
    by (rule allowSetForegroundWindow_no_start)
  then have s3: "count_ev is_RpcStart (trace s3) = count_ev is_RpcStart (trace s)"
    using a by (simp add: count_ev_def)
  have r: "r = (if isWindows E
      then (case getMainProcessId_reply W of
              Never \<Rightarrow> Pending
            | Reply d r \<Rightarrow> (case r of Inl e \<Rightarrow> Rejected e | Inr processId \<Rightarrow> Resolved ()))
      else Resolved ())"
    using fst_allowSetForegroundWindow [of E W ?s2] a by simp
  have e: "count_ev is_RpcStart (trace (elapse d s')) = count_ev is_RpcStart (trace s')" for d s'
    by (simp add: count_ev_def filter_elapse)
  have ef: "count_ev is_RpcStart (trace (elapse_forever s')) = count_ev is_RpcStart (trace s')" for s'
    by (simp add: count_ev_def filter_elapse_forever)
  have c: "count_ev is_RpcStart (trace (clearTimeout t s')) = count_ev is_RpcStart (trace s')" for t s'
    by (simp add: count_ev_def filter_clearTimeout)
  show ?thesis
    unfolding forward_def Let_def a
    by (cases r) (use r in \<open>simp_all add: s3 e ef c split: reply.splits sum.splits option.splits if_splits\<close>)
qed

text \<open>
  Claim C7 says that no failure of the grant step makes the forwarding fail. On Windows
  the step starts with the request \<^verbatim>\<open>getMainProcessId\<close>, whose rejection is not caught:
  the promise of \<^verbatim>\<open>allowSetForegroundWindow\<close> is rejected, \<^verbatim>\<open>start\<close> is never sent and the
  run ends with that error, which is not an expected one.
\<close>

theorem grant_query_rejected_counterexample:
  "setupIPC example_host (example_env\<lparr>isWindows := True\<rparr>)
     (live_world\<lparr>getMainProcessId_reply := Reply 5 (Inl (sys_error ''EPIPE''))\<rparr>) initial_state =
     (Rejected (sys_error ''EPIPE''),
      \<lparr>trace = [Serve ''/tmp/main.sock'', Connect ''/tmp/main.sock'', SetTimeout 1 10000,
                LogInfo ''Sending env to running instance...'' [], RpcGetMainProcessId],
       clock = 5,
       timers = [(1, 10000, ''Another instance of Code is running but not responding'',
                  ''Please close all other instances and try again.'')]\<rparr>)
   \<and> isExpected (sys_error ''EPIPE'') = False"
  by (simp add: setupIPC_def setup'.simps connected_def forward_def allowSetForegroundWindow_def
      setTimeout_def secondInstanceNoResponse_def truthy_def live_world_def initial_state_def
      sys_error_def example_env_def emit_def elapse_def fire_def)

text \<open>
  Claim C7, amended: off Windows the grant step does nothing and is fulfilled at once. On
  Windows it asks the peer for its process id. Once the id is known, no failure of the
  guarded native part, be it the loading of the module or the call of the grant, makes the
  forwarding fail: the step is fulfilled, the start request is sent exactly once, and when
  it is acknowledged the run ends with the \<^verbatim>\<open>ExpectedError\<close> of the forwarding. When the
  request for the id is rejected, the step and with it the forwarding are rejected with
  that error, and when it is never answered the forwarding never ends; in both cases no
  start request is sent.
\<close>

theorem native_grant_failures_ignored:
  "(\<not> isWindows E \<longrightarrow> allowSetForegroundWindow E W s = (Resolved (), s))
   \<and> (isWindows E \<and> getMainProcessId_reply W = Reply d (Inr processId) \<longrightarrow>
        allowSetForegroundWindow E W s =
          (Resolved (),
           (case grant_result W of
              RequireThrows \<Rightarrow> id
            | CallThrows \<Rightarrow> emit (AllowSetForegroundWindow processId)
            | Granted \<Rightarrow> emit (AllowSetForegroundWindow processId))
             (emit (NodeRequire ''windows-foreground-love'')
                (emit (LogInfo ''Sending some foreground love to the running instance:''
                         [digits processId])
                   (elapse d (emit RpcGetMainProcessId s))))))
   \<and> (isWindows E \<and> getMainProcessId_reply W = Reply d (Inl e) \<longrightarrow>
        allowSetForegroundWindow E W s = (Rejected e, elapse d (emit RpcGetMainProcessId s))
        \<and> forward E W c h s =
            (Rejected e,
             elapse d (emit RpcGetMainProcessId
               (emit (LogInfo ''Sending env to running instance...'' []) s))))
   \<and> (isWindows E \<and> getMainProcessId_reply W = Never \<longrightarrow>
        forward E W c h s =
          (Pending,
           elapse_forever (emit RpcGetMainProcessId
             (emit (LogInfo ''Sending env to running instance...'' []) s))))
   \<and> count_ev is_RpcStart (trace (snd (forward E W c h s))) =
       count_ev is_RpcStart (trace s) +
       (if isWindows E
        then (case getMainProcessId_reply W of
                Never \<Rightarrow> 0
              | Reply d r \<Rightarrow> (case r of Inl e \<Rightarrow> 0 | Inr processId \<Rightarrow> 1))
        else 1)
   \<and> ((isWindows E \<longrightarrow> getMainProcessId_reply W = Reply d (Inr processId)) \<longrightarrow>
        fst (allowSetForegroundWindow E (W\<lparr>grant_result := g\<rparr>) s) = Resolved ()
      \<and> count_ev is_RpcStart (trace (snd (forward E (W\<lparr>grant_result := g\<rparr>) c h s))) =
          Suc (count_ev is_RpcStart (trace s))
      \<and> (start_reply W = Reply d' (Inr ()) \<longrightarrow>
          fst (forward E (W\<lparr>grant_result := g\<rparr>) c h s) =
            Rejected (ExpectedError (captured_stack W)
              ''Sent env to running instance. Terminating...'')))"
proof -
  have p1: "\<not> isWindows E \<longrightarrow> allowSetForegroundWindow E W s = (Resolved (), s)"
    by (simp add: allowSetForegroundWindow_cases)
  have p2: "isWindows E \<and> getMainProcessId_reply W = Reply d (Inr processId) \<longrightarrow>
        allowSetForegroundWindow E W s =
          (Resolved (),
           (case grant_result W of
              RequireThrows \<Rightarrow> id
            | CallThrows \<Rightarrow> emit (AllowSetForegroundWindow processId)
            | Granted \<Rightarrow> emit (AllowSetForegroundWindow processId))
             (emit (NodeRequire ''windows-foreground-love'')
                (emit (LogInfo ''Sending some foreground love to the running instance:''
                         [digits processId])
                   (elapse d (emit RpcGetMainProcessId s)))))"
    by (simp add: allowSetForegroundWindow_cases)
  have p3: "isWindows E \<and> getMainProcessId_reply W = Reply d (Inl e) \<longrightarrow>
        allowSetForegroundWindow E W s = (Rejected e, elapse d (emit RpcGetMainProcessId s))
        \<and> forward E W c h s =
            (Rejected e,
             elapse d (emit RpcGetMainProcessId
               (emit (LogInfo ''Sending env to running instance...'' []) s)))"
    by (simp add: allowSetForegroundWindow_cases forward_def Let_def)
  have p4: "isWindows E \<and> getMainProcessId_reply W = Never \<longrightarrow>
        forward E W c h s =
          (Pending,
           elapse_forever (emit RpcGetMainProcessId
             (emit (LogInfo ''Sending env to running instance...'' []) s)))"
    by (simp add: allowSetForegroundWindow_cases forward_def Let_def)
  note p5 = forward_start_count [of E W c h s]
  have p6: "fst (allowSetForegroundWindow E (W\<lparr>grant_result := g\<rparr>) s) = Resolved ()
      \<and> count_ev is_RpcStart (trace (snd (forward E (W\<lparr>grant_result := g\<rparr>) c h s))) =
          Suc (count_ev is_RpcStart (trace s))
      \<and> (start_reply W = Reply d' (Inr ()) \<longrightarrow>
          fst (forward E (W\<lparr>grant_result := g\<rparr>) c h s) =
            Rejected (ExpectedError (captured_stack W)
              ''Sent env to running instance. Terminating...''))"
    if g: "isWindows E \<longrightarrow> getMainProcessId_reply W = Reply d (Inr processId)"
  proof -
    let ?W = "W\<lparr>grant_result := g\<rparr>"
    let ?s2 = "emit (LogInfo ''Sending env to running instance...'' []) s"
    have r: "fst (allowSetForegroundWindow E ?W s') = Resolved ()" for s'
      using g by (simp add: fst_allowSetForegroundWindow)
    obtain s3 where a: "allowSetForegroundWindow E ?W ?s2 = (Resolved (), s3)"
      using r [of ?s2] by (cases "allowSetForegroundWindow E ?W ?s2") simp
    have n: "count_ev is_RpcStart (trace (snd (forward E ?W c h s))) =
        Suc (count_ev is_RpcStart (trace s))"
      using g by (simp add: forward_start_count)
    have e: "start_reply W = Reply d' (Inr ()) \<longrightarrow>
           fst (forward E ?W c h s) =
             Rejected (ExpectedError (captured_stack W)
               ''Sent env to running instance. Terminating...'')"
      by (simp add: forward_granted [OF a])
    show ?thesis
      using r n e by blast
  qed
  show ?thesis
    using p1 p2 p3 p4 p5 p6 by blast
qed

theorem native_grant_failures_ignored_witness:
  "setupIPC example_host (example_env\<lparr>isWindows := True\<rparr>)
     (live_world\<lparr>grant_result := CallThrows\<rparr>) initial_state =
     (Rejected (ExpectedError None ''Sent env to running instance. Terminating...''),
      \<lparr>trace = [Serve ''/tmp/main.sock'', Connect ''/tmp/main.sock'', SetTimeout 1 10000,
                LogInfo ''Sending env to running instance...'' [], RpcGetMainProcessId,
                LogInfo ''Sending some foreground love to the running instance:'' [''100''],
                NodeRequire ''windows-foreground-love'', AllowSetForegroundWindow 100,
                RpcStart \<lparr>ps = False, argv = [''--open'', ''/tmp/x'']\<rparr> [(''A'', ''1'')],
                ClientDispose (Client 0), ClearTimeout 1],
       clock = 35, timers = []\<rparr>)
   \<and> fst (forward (example_env\<lparr>isWindows := True\<rparr>) (live_world\<lparr>grant_result := RequireThrows\<rparr>)
        (Client 0) None initial_state) =
       Rejected (ExpectedError None ''Sent env to running instance. Terminating...'')"
  using native_grant_failures_ignored [where E = "example_env\<lparr>isWindows := True\<rparr>"
      and W = live_world and d = 5 and processId = 100 and g = RequireThrows and c = "Client 0"
      and h = None and s = initial_state and d' = 30 and e = "sys_error ''EPIPE''"]
  by (simp add: setupIPC_def setup'.simps connected_def forward_def allowSetForegroundWindow_def
      setTimeout_def clearTimeout_def secondInstanceNoResponse_def truthy_def live_world_def
      initial_state_def sys_error_def example_env_def emit_def elapse_def fire_def
      digits_lt10 digits_ge10)

subsection \<open>The startup warning timer\<close>





















end
